theory Spec2Isabelle
  imports Main
begin

chapter \<open>SynapseHA: name resolution, fuzzy search and the two-tier cache\<close>

text \<open>
  A shallow embedding of three parts of the repository:
  \<^item> \<^verbatim>\<open>addons/synapseha/src/lib/name-resolver.ts\<close> (class \<^verbatim>\<open>NameResolver\<close>) together with the
    resolver of \<^verbatim>\<open>addons/mcp-ha-bridge/server.js\<close>;
  \<^item> \<^verbatim>\<open>searchEntitiesFuzzy\<close> and \<^verbatim>\<open>fuzzyMatch\<close> of \<^verbatim>\<open>addons/mcp-ha-bridge/server.js\<close>;
  \<^item> \<^verbatim>\<open>src/lib/cache.ts\<close> (class \<^verbatim>\<open>CacheManager\<close>).

  Conventions. A JavaScript string is a \<^typ>\<open>string\<close>; \<^verbatim>\<open>toLowerCase\<close> acts on the ASCII
  letters. An optional string field is a \<^typ>\<open>string option\<close>, and the source's truthiness
  test on it (\<^verbatim>\<open>if (args.name)\<close>) holds for a non-empty string only. A \<^verbatim>\<open>Map\<close> whose
  iteration order the code depends on is an association list in insertion order. A plain
  object used as a dictionary is the list of its own properties; the index of the bridge,
  whose keys are normalized names, is read and written with the properties it inherits from
  \<^verbatim>\<open>Object.prototype\<close>. Numbers are integers.
\<close>

section \<open>Strings\<close>

definition truthy :: "string option \<Rightarrow> bool" where
  "truthy x = (case x of None \<Rightarrow> False | Some s \<Rightarrow> s \<noteq> [])"

definition str :: "string option \<Rightarrow> string" where
  "str x = (case x of None \<Rightarrow> [] | Some s \<Rightarrow> s)"

definition startsWith :: "'a list \<Rightarrow> 'a list \<Rightarrow> bool" where
  "startsWith s p = (take (length p) s = p)"

fun includes_str :: "'a list \<Rightarrow> 'a list \<Rightarrow> bool" where
  "includes_str [] p = (p = [])"
| "includes_str (c # cs) p = (startsWith (c # cs) p \<or> includes_str cs p)"

text \<open>\<^verbatim>\<open>s.split(sep)\<close> for a one-character separator: never the empty array.\<close>

fun split_on :: "char \<Rightarrow> string \<Rightarrow> string list" where
  "split_on sep [] = [[]]"
| "split_on sep (c # cs) =
     (if c = sep then [] # split_on sep cs
      else (case split_on sep cs of [] \<Rightarrow> [[c]] | w # ws \<Rightarrow> (c # w) # ws))"

fun join_with :: "string \<Rightarrow> string list \<Rightarrow> string" where
  "join_with sep [] = []"
| "join_with sep [w] = w"
| "join_with sep (w # ws) = w @ sep @ join_with sep ws"

text \<open>\<^verbatim>\<open>s.replace(a, b)\<close> with a string pattern replaces the first occurrence only.\<close>

fun replace_first :: "char \<Rightarrow> char \<Rightarrow> string \<Rightarrow> string" where
  "replace_first a b [] = []"
| "replace_first a b (c # cs) = (if c = a then b # cs else c # replace_first a b cs)"

text \<open>\<^verbatim>\<open>[...new Set(xs)]\<close>: the first occurrence of every element, in order.\<close>

definition uniq :: "'a list \<Rightarrow> 'a list" where
  "uniq xs = rev (remdups (rev xs))"

subsection \<open>normalizeName\<close>

text \<open>
  \<^verbatim>\<open>
  normalizeName(name: string): string {
    if (name == null || typeof name !== 'string') return '';
    return String(name)
      .toLowerCase()
      .replace(/[^a-z0-9]+/g, '_')
      .replace(/^_+|_+$/g, '');
  }
  \<close>
\<close>

definition is_lower_alnum :: "char \<Rightarrow> bool" where
  "is_lower_alnum c =
     (let n = (of_char c :: int) in (97 \<le> n \<and> n \<le> 122) \<or> (48 \<le> n \<and> n \<le> 57))"

definition toLowerCase_char :: "char \<Rightarrow> char" where
  "toLowerCase_char c =
     (let n = (of_char c :: int) in if 65 \<le> n \<and> n \<le> 90 then char_of (n + 32) else c)"

definition toLowerCase :: "string \<Rightarrow> string" where
  "toLowerCase s = map toLowerCase_char s"

text \<open>\<^verbatim>\<open>.replace(/[^a-z0-9]+/g, '_')\<close>: every maximal run of other characters becomes one underscore.\<close>

function replace_runs :: "string \<Rightarrow> string" where
  "replace_runs [] = []"
| "replace_runs (c # cs) =
     (if is_lower_alnum c then c # replace_runs cs
      else CHR ''_'' # replace_runs (dropWhile (\<lambda>d. \<not> is_lower_alnum d) cs))"
  by pat_completeness auto
termination
  by (relation "measure length") (auto simp: less_Suc_eq_le length_dropWhile_le)

text \<open>\<^verbatim>\<open>.replace(/^_+|_+$/g, '')\<close>: the leading and the trailing run of underscores go.\<close>

definition strip_underscores :: "string \<Rightarrow> string" where
  "strip_underscores s =
     rev (dropWhile (\<lambda>c. c = CHR ''_'') (rev (dropWhile (\<lambda>c. c = CHR ''_'') s)))"

definition normalizeName :: "string \<Rightarrow> string" where
  "normalizeName name = strip_underscores (replace_runs (toLowerCase name))"

text \<open>The shape of a normalized token: lower-case alphanumerics, separated by single underscores.\<close>

fun token_shape :: "string \<Rightarrow> bool" where
  "token_shape [] = True"
| "token_shape (c # cs) =
     (if is_lower_alnum c then token_shape cs
      else c = CHR ''_'' \<and> (case cs of [] \<Rightarrow> True | d # _ \<Rightarrow> is_lower_alnum d) \<and> token_shape cs)"

section \<open>The registry\<close>

text \<open>
  \<^verbatim>\<open>Entity\<close>, \<^verbatim>\<open>Area\<close> and \<^verbatim>\<open>Device\<close> of \<^verbatim>\<open>types/index.ts\<close>, with the attributes the
  resolver and the search read (\<^verbatim>\<open>attributes.friendly_name\<close>, \<^verbatim>\<open>attributes.area_id\<close>,
  \<^verbatim>\<open>attributes.floor\<close>) and the \<^verbatim>\<open>entities\<close> list that the bridge reads from a device.
\<close>

record Entity =
  entity_id :: string
  state :: string
  attr_friendly_name :: "string option"
  attr_area_id :: "string option"
  attr_floor :: "string option"

record Area =
  area_id :: string
  area_name :: string

record Device =
  device_id :: string
  device_area_id :: "string option"
  device_entities :: "string list"

section \<open>NameResolver (name-resolver.ts)\<close>

type_synonym name_index = "(string \<times> string list) list"

record NameResolver =
  nameIndex :: name_index
  entities :: "string \<rightharpoonup> Entity"
  areas :: "string \<rightharpoonup> Area"
  devices :: "string \<rightharpoonup> Device"

text \<open>
  \<^verbatim>\<open>
  if (!this.nameIndex.has(normalized)) { this.nameIndex.set(normalized, []); }
  this.nameIndex.get(normalized)!.push(id);
  \<close>
  A new key goes to the end of the iteration order, a known key keeps its place.
\<close>

fun index_push :: "name_index \<Rightarrow> string \<Rightarrow> string \<Rightarrow> name_index" where
  "index_push [] k i = [(k, [i])]"
| "index_push ((k', v) # rest) k i =
     (if k' = k then (k', v @ [i]) # rest else (k', v) # index_push rest k i)"

text \<open>\<^verbatim>\<open>this.nameIndex.get(token) || []\<close>\<close>

definition lookup :: "name_index \<Rightarrow> string \<Rightarrow> string list" where
  "lookup idx token = (case map_of idx token of None \<Rightarrow> [] | Some ids \<Rightarrow> ids)"

text \<open>\<^verbatim>\<open>entity.attributes?.friendly_name || id.split('.').slice(1).join(' ')\<close>\<close>

definition friendlyName :: "Entity \<Rightarrow> string" where
  "friendlyName entity =
     (if truthy (attr_friendly_name entity) then str (attr_friendly_name entity)
      else join_with '' '' (drop 1 (split_on CHR ''.'' (entity_id entity))))"

definition index_entity :: "Entity \<Rightarrow> NameResolver \<Rightarrow> NameResolver" where
  "index_entity entity r =
     (let eid = entity_id entity;
          r1 = r\<lparr>entities := (entities r)(eid \<mapsto> entity)\<rparr>;
          normalized = normalizeName (friendlyName entity);
          r2 = r1\<lparr>nameIndex := index_push (nameIndex r1) normalized eid\<rparr>;
          idNorm = normalizeName (replace_first CHR ''.'' CHR '' '' eid)
      in r2\<lparr>nameIndex := index_push (nameIndex r2) idNorm eid\<rparr>)"

definition setEntities :: "NameResolver \<Rightarrow> Entity list \<Rightarrow> NameResolver" where
  "setEntities r ents = fold index_entity ents (r\<lparr>entities := Map.empty, nameIndex := []\<rparr>)"

definition setAreas :: "NameResolver \<Rightarrow> Area list \<Rightarrow> NameResolver" where
  "setAreas r as = r\<lparr>areas := fold (\<lambda>area m. m(area_id area \<mapsto> area)) as Map.empty\<rparr>"

definition setDevices :: "NameResolver \<Rightarrow> Device list \<Rightarrow> NameResolver" where
  "setDevices r ds = r\<lparr>devices := fold (\<lambda>device m. m(device_id device \<mapsto> device)) ds Map.empty\<rparr>"

definition empty_resolver :: NameResolver where
  "empty_resolver = \<lparr>nameIndex = [], entities = Map.empty, areas = Map.empty, devices = Map.empty\<rparr>"

subsection \<open>resolveEntityId\<close>

record ResolveArgs =
  arg_entity_id :: "string option"
  arg_name :: "string option"
  arg_area :: "string option"
  arg_floor :: "string option"
  arg_domain :: "string option"

text \<open>
  \<^verbatim>\<open>
  for (const [key, entityIds] of this.nameIndex.entries()) {
    if (key.includes(normalized) || normalized.includes(key)) partialMatches.push(...entityIds);
  }
  candidates = [...new Set(partialMatches)];
  \<close>
\<close>

definition partialMatches :: "name_index \<Rightarrow> string \<Rightarrow> string list" where
  "partialMatches idx normalized =
     concat (map snd (filter (\<lambda>(key, entityIds). includes_str key normalized \<or> includes_str normalized key) idx))"

definition domainMatches :: "string \<Rightarrow> string list \<Rightarrow> string list" where
  "domainMatches domain filtered = filter (\<lambda>c. startsWith c (domain @ ''.'')) filtered"

text \<open>
  \<^verbatim>\<open>
  const areaFiltered = filtered.filter(entityId => {
    const entity = this.entities.get(entityId);
    const entityAreaId = entity?.attributes?.area_id;
    if (!entityAreaId) return false;
    const areaObj = this.areas.get(entityAreaId);
    return areaObj && this.normalizeName(areaObj.name) === this.normalizeName(args.area!);
  });
  \<close>
\<close>

definition areaFiltered ::
  "(string \<rightharpoonup> Entity) \<Rightarrow> (string \<rightharpoonup> Area) \<Rightarrow> string \<Rightarrow> string list \<Rightarrow> string list" where
  "areaFiltered ents ars area filtered =
     filter (\<lambda>entityId.
       case ents entityId of
         None \<Rightarrow> False
       | Some entity \<Rightarrow>
           if \<not> truthy (attr_area_id entity) then False
           else (case ars (str (attr_area_id entity)) of
                   None \<Rightarrow> False
                 | Some areaObj \<Rightarrow> normalizeName (area_name areaObj) = normalizeName area)) filtered"

definition floorFiltered :: "(string \<rightharpoonup> Entity) \<Rightarrow> string \<Rightarrow> string list \<Rightarrow> string list" where
  "floorFiltered ents floor filtered =
     filter (\<lambda>entityId.
       case ents entityId of None \<Rightarrow> False | Some entity \<Rightarrow> attr_floor entity = Some floor) filtered"

text \<open>
  The part of \<^verbatim>\<open>resolveEntityId\<close> under the comment \<^verbatim>\<open>// Disambiguation logic\<close>, which is the
  same text in both resolvers: the domain filter, the area filter, the floor filter, each
  kept only when it leaves a candidate. The result is the last value of \<^verbatim>\<open>filtered\<close>.
\<close>

definition disambiguate ::
  "(string \<rightharpoonup> Entity) \<Rightarrow> (string \<rightharpoonup> Area) \<Rightarrow> ResolveArgs \<Rightarrow> string list \<Rightarrow> string list" where
  "disambiguate ents ars args candidates =
     (let filtered = candidates;
          filtered =
            (if truthy (arg_domain args) then
               (let dm = domainMatches (str (arg_domain args)) filtered
                in if length dm > 0 then dm else filtered)
             else filtered);
          filtered =
            (if truthy (arg_area args) \<and> length filtered > 1 then
               (let af = areaFiltered ents ars (str (arg_area args)) filtered
                in if length af > 0 then af else filtered)
             else filtered);
          filtered =
            (if truthy (arg_floor args) \<and> length filtered > 1 then
               (let ff = floorFiltered ents (str (arg_floor args)) filtered
                in if length ff > 0 then ff else filtered)
             else filtered)
      in filtered)"

text \<open>
  \<^verbatim>\<open>NameResolver.resolveEntityId\<close>; \<^verbatim>\<open>null\<close> is \<^term>\<open>None\<close>. The last line is
  \<^verbatim>\<open>return filtered[0] || null\<close>.
\<close>

definition resolveEntityId :: "NameResolver \<Rightarrow> ResolveArgs \<Rightarrow> string option" where
  "resolveEntityId r args =
     (if truthy (arg_entity_id args) then arg_entity_id args
      else if \<not> truthy (arg_name args) then None
      else
        (let searchName = str (arg_name args);
             normalized = normalizeName searchName;
             candidates = lookup (nameIndex r) normalized;
             candidates =
               (if length candidates = 0 then uniq (partialMatches (nameIndex r) normalized)
                else candidates)
         in (case candidates of
               [] \<Rightarrow> None
             | [c] \<Rightarrow> Some c
             | _ \<Rightarrow>
               (case disambiguate (entities r) (areas r) args candidates of
                  [] \<Rightarrow> None
                | c # _ \<Rightarrow> if c = [] then None else Some c))))"

section \<open>The bridge (server.js)\<close>

text \<open>
  The state of \<^verbatim>\<open>HomeAssistantMCPServer\<close> that the index build, the resolver and the search
  read and write: \<^verbatim>\<open>this.entities\<close>, \<^verbatim>\<open>this.nameIndex\<close>, \<^verbatim>\<open>this.areas\<close> and \<^verbatim>\<open>this.devices\<close>,
  plain objects used as dictionaries. The entities, the index and the devices, which the code
  iterates, are the lists of their own properties in insertion order; the areas, which it
  only reads by key, are a map.
\<close>

record Bridge =
  b_entities :: "(string \<times> Entity) list"
  b_nameIndex :: name_index
  b_areas :: "string \<rightharpoonup> Area"
  b_devices :: "(string \<times> Device) list"

definition empty_bridge :: Bridge where
  "empty_bridge = \<lparr>b_entities = [], b_nameIndex = [], b_areas = Map.empty, b_devices = []\<rparr>"

subsection \<open>Reading and writing a plain object\<close>

text \<open>
  \<^verbatim>\<open>this.nameIndex = {}\<close> creates an object whose prototype is \<^verbatim>\<open>Object.prototype\<close>. Reading
  \<^verbatim>\<open>obj[key]\<close> gives the own property when there is one, otherwise the property that
  \<^verbatim>\<open>Object.prototype\<close> has under that name (a function, or for \<^verbatim>\<open>__proto__\<close> the prototype
  itself: truthy, and without a \<^verbatim>\<open>push\<close> method), otherwise \<^verbatim>\<open>undefined\<close>.
\<close>

datatype 'a property = Own 'a | Inherited | Undefined

definition object_prototype_names :: "string list" where
  "object_prototype_names =
     [''constructor'', ''__defineGetter__'', ''__defineSetter__'', ''hasOwnProperty'',
      ''__lookupGetter__'', ''__lookupSetter__'', ''isPrototypeOf'', ''propertyIsEnumerable'',
      ''toString'', ''valueOf'', ''__proto__'', ''toLocaleString'']"

definition obj_get :: "(string \<times> 'a) list \<Rightarrow> string \<Rightarrow> 'a property" where
  "obj_get obj key =
     (case map_of obj key of
        Some v \<Rightarrow> Own v
      | None \<Rightarrow> if key \<in> set object_prototype_names then Inherited else Undefined)"

text \<open>\<^verbatim>\<open>obj[key] = v\<close>: a known key keeps its place, a new key goes to the end.\<close>

fun obj_set :: "(string \<times> 'a) list \<Rightarrow> string \<Rightarrow> 'a \<Rightarrow> (string \<times> 'a) list" where
  "obj_set [] key v = [(key, v)]"
| "obj_set ((k, u) # rest) key v =
     (if k = key then (k, v) # rest else (k, u) # obj_set rest key v)"

text \<open>
  \<^verbatim>\<open>Object.entries(obj)\<close> lists the keys that are array indices first (the decimal numerals
  without leading zero below \<open>2\<^sup>3\<^sup>2 - 1\<close>), in ascending numeric order, then the other keys in
  insertion order. A normalized name such as \<^verbatim>\<open>42\<close> is an array index. The keys of
  \<^verbatim>\<open>this.entities\<close> are entity identifiers, \<^verbatim>\<open><domain>.<slug>\<close>, which never are, so
  \<^verbatim>\<open>Object.entries(this.entities)\<close> is the insertion order; likewise the device identifiers.
\<close>

definition is_digit :: "char \<Rightarrow> bool" where
  "is_digit c = (let n = (of_char c :: int) in 48 \<le> n \<and> n \<le> 57)"

definition dec_value :: "string \<Rightarrow> int" where
  "dec_value key = foldl (\<lambda>n c. n * 10 + (of_char c - 48)) 0 key"

definition is_array_index :: "string \<Rightarrow> bool" where
  "is_array_index key =
     (case key of
        [] \<Rightarrow> False
      | c # cs \<Rightarrow> list_all is_digit key \<and> (c \<noteq> CHR ''0'' \<or> cs = []) \<and> dec_value key < 4294967295)"

definition js_entries :: "(string \<times> 'a) list \<Rightarrow> (string \<times> 'a) list" where
  "js_entries obj =
     sort_key (\<lambda>p. dec_value (fst p)) (filter (\<lambda>p. is_array_index (fst p)) obj)
     @ filter (\<lambda>p. \<not> is_array_index (fst p)) obj"

subsection \<open>buildEntityIndex\<close>

text \<open>
  \<^verbatim>\<open>
  if (!this.nameIndex[normalized]) this.nameIndex[normalized] = [];
  this.nameIndex[normalized].push(id);
  \<close>
  An own property is an array, which is truthy, and the identifier is pushed. Under a key the
  object does not have, the empty array is stored first. Under a key that only
  \<^verbatim>\<open>Object.prototype\<close> has, the value read is truthy, nothing is stored, and the call of
  \<^verbatim>\<open>push\<close> throws a \<^verbatim>\<open>TypeError\<close>: \<^term>\<open>None\<close>.
\<close>

definition bridge_index_push :: "name_index \<Rightarrow> string \<Rightarrow> string \<Rightarrow> name_index option" where
  "bridge_index_push idx key eid =
     (case obj_get idx key of
        Own ids \<Rightarrow> Some (obj_set idx key (ids @ [eid]))
      | Undefined \<Rightarrow> Some (obj_set idx key [eid])
      | Inherited \<Rightarrow> None)"

text \<open>
  The loop \<^verbatim>\<open>for (const ent of data)\<close> of \<^verbatim>\<open>buildEntityIndex\<close>:
  \<^verbatim>\<open>
  const id = ent.entity_id;
  this.entities[id] = { ...ent, snapshot: { ... } };
  const friendly = (ent.attributes && ent.attributes.friendly_name) || id.split(".").slice(1).join(" ");
  const normalized = this.normalizeName(friendly);
  if (!this.nameIndex[normalized]) this.nameIndex[normalized] = [];
  this.nameIndex[normalized].push(id);
  const idNorm = this.normalizeName(id.replace(".", " "));
  if (!this.nameIndex[idNorm]) this.nameIndex[idNorm] = [];
  this.nameIndex[idNorm].push(id);
  \<close>
  The loop stands inside the \<^verbatim>\<open>try\<close> of the whole function, whose \<^verbatim>\<open>catch\<close> logs the error and
  returns. So a throw ends the loop and leaves the state as it is at that point. The result is
  that state, with \<^term>\<open>True\<close> when the loop ran to its end and \<^term>\<open>False\<close> when it threw. The
  maps of automations, scenes and scripts, which neither the resolver nor the search reads,
  are left out.
\<close>

fun bridge_index_loop :: "Entity list \<Rightarrow> Bridge \<Rightarrow> bool \<times> Bridge" where
  "bridge_index_loop [] b = (True, b)"
| "bridge_index_loop (ent # data) b =
     (let eid = entity_id ent;
          b1 = b\<lparr>b_entities := obj_set (b_entities b) eid ent\<rparr>;
          normalized = normalizeName (friendlyName ent)
      in (case bridge_index_push (b_nameIndex b1) normalized eid of
            None \<Rightarrow> (False, b1)
          | Some idx1 \<Rightarrow>
              (let b2 = b1\<lparr>b_nameIndex := idx1\<rparr>;
                   idNorm = normalizeName (replace_first CHR ''.'' CHR '' '' eid)
               in (case bridge_index_push (b_nameIndex b2) idNorm eid of
                     None \<Rightarrow> (False, b2)
                   | Some idx2 \<Rightarrow> bridge_index_loop data (b2\<lparr>b_nameIndex := idx2\<rparr>)))))"

text \<open>
  What \<^verbatim>\<open>await fetch(url)\<close> and \<^verbatim>\<open>await response.json()\<close> can come to: the fetch rejects, the
  response is not \<^verbatim>\<open>ok\<close>, the body does not parse, or the body is the list of entities.
\<close>

datatype fetch_outcome = FetchRejects | NotOk | JsonRejects | Data "Entity list"

text \<open>
  \<^verbatim>\<open>buildEntityIndex\<close>, from the point where its last \<^verbatim>\<open>await\<close> before the loop resumes: in the
  first three cases the function returns (directly or through its \<^verbatim>\<open>catch\<close>) before it touches
  the state; otherwise it runs \<^verbatim>\<open>this.entities = {}; this.nameIndex = {}\<close> and the loop, without
  another \<^verbatim>\<open>await\<close> until the loop is over. The refresh of areas and devices that follows is a
  separate step and is not part of the index.
\<close>

definition buildEntityIndex :: "Bridge \<Rightarrow> fetch_outcome \<Rightarrow> bool \<times> Bridge" where
  "buildEntityIndex b outcome =
     (case outcome of
        FetchRejects \<Rightarrow> (False, b)
      | NotOk \<Rightarrow> (False, b)
      | JsonRejects \<Rightarrow> (False, b)
      | Data data \<Rightarrow> bridge_index_loop data (b\<lparr>b_entities := [], b_nameIndex := []\<rparr>))"

subsection \<open>resolveEntityId of the bridge\<close>

text \<open>
  \<^verbatim>\<open>
  resolveEntityId(args) {
    let { domain, name, area, floor } = args;
    if (args.entity_id) return args.entity_id;
    if (!name && !area) return null;
    const searchName = name || area;
    const normalized = this.normalizeName(searchName);
    let candidates = this.nameIndex[normalized] || [];
    if (candidates.length === 0) {
      const partialMatches = [];
      for (const [key, entityIds] of Object.entries(this.nameIndex)) {
        if (key.includes(normalized) || normalized.includes(key)) partialMatches.push(...entityIds);
      }
      candidates = [...new Set(partialMatches)];
    }
    if (candidates.length === 0) return null;
    if (candidates.length === 1) return candidates[0];
    ... // disambiguation logic
    return filtered[0];
  }
  \<close>
  It differs from the class above in falling back on the area as the search name, in reading
  a plain object, and in its last line. Of the names of \<^verbatim>\<open>Object.prototype\<close> only
  \<^verbatim>\<open>constructor\<close> has the shape of a normalized name; when the index has no own property of
  that name, \<^verbatim>\<open>this.nameIndex[normalized]\<close> is the function \<^verbatim>\<open>Object\<close>, whose \<^verbatim>\<open>length\<close> is 1
  and whose property \<^verbatim>\<open>0\<close> is \<^verbatim>\<open>undefined\<close>: the call returns \<^verbatim>\<open>undefined\<close>, here \<^term>\<open>None\<close>.
  The entities and areas are read by their own keys.
\<close>

definition bridge_resolveEntityId :: "Bridge \<Rightarrow> ResolveArgs \<Rightarrow> string option" where
  "bridge_resolveEntityId b args =
     (if truthy (arg_entity_id args) then arg_entity_id args
      else if \<not> truthy (arg_name args) \<and> \<not> truthy (arg_area args) then None
      else
        (let searchName = (if truthy (arg_name args) then str (arg_name args) else str (arg_area args));
             normalized = normalizeName searchName
         in (case obj_get (b_nameIndex b) normalized of
               Inherited \<Rightarrow> None
             | found \<Rightarrow>
                 (let candidates = (case found of Own ids \<Rightarrow> ids | _ \<Rightarrow> []);
                      candidates =
                        (if length candidates = 0
                         then uniq (partialMatches (js_entries (b_nameIndex b)) normalized)
                         else candidates)
                  in (case candidates of
                        [] \<Rightarrow> None
                      | [c] \<Rightarrow> Some c
                      | _ \<Rightarrow>
                        (case disambiguate (map_of (b_entities b)) (b_areas b) args candidates of
                           [] \<Rightarrow> None
                         | c # _ \<Rightarrow> Some c))))))"

subsection \<open>Rebuilds between lookups\<close>

text \<open>
  In the single-threaded event loop a run of the bridge is a sequence of synchronous segments:
  a call of the resolver, or the segment of \<^verbatim>\<open>buildEntityIndex\<close> described above. The function
  \<open>bridge_run\<close> returns what every resolver call of the sequence returned.
\<close>

datatype bridge_event = Resolve ResolveArgs | Rebuild fetch_outcome

fun bridge_run :: "Bridge \<Rightarrow> bridge_event list \<Rightarrow> string option list" where
  "bridge_run b [] = []"
| "bridge_run b (Resolve args # evs) = bridge_resolveEntityId b args # bridge_run b evs"
| "bridge_run b (Rebuild outcome # evs) = bridge_run (snd (buildEntityIndex b outcome)) evs"

subsection \<open>fuzzyMatch\<close>

text \<open>
  \<^verbatim>\<open>
  fuzzyMatch(str1, str2) {
    if (Math.abs(str1.length - str2.length) > 2) return false;
    let differences = 0;
    const maxLen = Math.max(str1.length, str2.length);
    for (let i = 0; i < maxLen; i++) {
      if (str1[i] !== str2[i]) differences++;
      if (differences > 2) return false;
    }
    return differences <= 2;
  }
  \<close>
  \<^verbatim>\<open>str[i]\<close> past the end is \<^verbatim>\<open>undefined\<close>, here \<^term>\<open>None\<close>.
\<close>

definition char_at :: "'a list \<Rightarrow> nat \<Rightarrow> 'a option" where
  "char_at s i = (if i < length s then Some (s ! i) else None)"

function fuzzyMatch_loop :: "'a list \<Rightarrow> 'a list \<Rightarrow> nat \<Rightarrow> nat \<Rightarrow> nat \<Rightarrow> bool" where
  "fuzzyMatch_loop str1 str2 maxLen i differences =
     (if i < maxLen then
        (let differences = (if char_at str1 i \<noteq> char_at str2 i then differences + 1 else differences)
         in if differences > 2 then False
            else fuzzyMatch_loop str1 str2 maxLen (i + 1) differences)
      else differences \<le> 2)"
  by pat_completeness auto
termination
  by (relation "measure (\<lambda>(str1, str2, maxLen, i, differences). maxLen - i)") auto

definition fuzzyMatch :: "'a list \<Rightarrow> 'a list \<Rightarrow> bool" where
  "fuzzyMatch str1 str2 =
     (if \<bar>int (length str1) - int (length str2)\<bar> > 2 then False
      else fuzzyMatch_loop str1 str2 (max (length str1) (length str2)) 0 0)"

text \<open>
  The near-match test as the specification words it: the number of positions, over the length
  of the longer token, at which the two tokens differ.
\<close>

definition mismatches :: "'a list \<Rightarrow> 'a list \<Rightarrow> nat" where
  "mismatches str1 str2 =
     length (filter (\<lambda>i. char_at str1 i \<noteq> char_at str2 i) [0 ..< max (length str1) (length str2)])"

definition near_match :: "'a list \<Rightarrow> 'a list \<Rightarrow> bool" where
  "near_match str1 str2 =
     (\<bar>int (length str1) - int (length str2)\<bar> \<le> 2 \<and> mismatches str1 str2 \<le> 2)"

subsection \<open>searchEntitiesFuzzy\<close>

record SearchArgs =
  query :: "string option"
  limit :: "int option"
  domain_hint :: "string option"
  area_hint :: "string option"

text \<open>\<^verbatim>\<open>normalized.split("_").filter(Boolean)\<close>\<close>

definition words_of :: "string \<Rightarrow> string list" where
  "words_of normalized = filter (\<lambda>w. w \<noteq> []) (split_on CHR ''_'' normalized)"

text \<open>\<^verbatim>\<open>entity.attributes?.friendly_name || id\<close>\<close>

definition search_friendlyName :: "string \<Rightarrow> Entity \<Rightarrow> string" where
  "search_friendlyName eid entity =
     (if truthy (attr_friendly_name entity) then str (attr_friendly_name entity) else eid)"

text \<open>The signals on the whole strings: exact match, starts with the query, contains the query.\<close>

definition exact_score :: "string \<Rightarrow> string \<Rightarrow> string \<Rightarrow> int" where
  "exact_score normalizedName normalizedId normalizedQuery =
     (if normalizedName = normalizedQuery \<or> normalizedId = normalizedQuery then 1000 else 0)"

definition prefix_score :: "string \<Rightarrow> string \<Rightarrow> string \<Rightarrow> int" where
  "prefix_score normalizedName normalizedId normalizedQuery =
     (if startsWith normalizedName normalizedQuery \<or> startsWith normalizedId normalizedQuery
      then 500 else 0)"

definition contains_score :: "string \<Rightarrow> string \<Rightarrow> string \<Rightarrow> int" where
  "contains_score normalizedName normalizedId normalizedQuery =
     (if includes_str normalizedName normalizedQuery then 250 else 0) +
     (if includes_str normalizedId normalizedQuery then 200 else 0)"

text \<open>
  \<^verbatim>\<open>
  for (const qWord of queryWords) {
    for (const nWord of nameWords) {
      if (nWord === qWord) score += 100;
      else if (nWord.startsWith(qWord)) score += 50;
      else if (nWord.includes(qWord)) score += 25;
      else if (this.fuzzyMatch(nWord, qWord)) score += 15;
    }
    for (const iWord of idWords) {
      if (iWord === qWord) score += 80;
      else if (iWord.startsWith(qWord)) score += 40;
      else if (iWord.includes(qWord)) score += 20;
      else if (this.fuzzyMatch(iWord, qWord)) score += 10;
    }
  }
  \<close>
\<close>

definition name_word_score :: "string \<Rightarrow> string \<Rightarrow> int" where
  "name_word_score nWord qWord =
     (if nWord = qWord then 100
      else if startsWith nWord qWord then 50
      else if includes_str nWord qWord then 25
      else if fuzzyMatch nWord qWord then 15
      else 0)"

definition id_word_score :: "string \<Rightarrow> string \<Rightarrow> int" where
  "id_word_score iWord qWord =
     (if iWord = qWord then 80
      else if startsWith iWord qWord then 40
      else if includes_str iWord qWord then 20
      else if fuzzyMatch iWord qWord then 10
      else 0)"

definition word_score :: "string list \<Rightarrow> string list \<Rightarrow> string list \<Rightarrow> int" where
  "word_score nameWords idWords queryWords =
     (\<Sum>qWord \<leftarrow> queryWords.
        (\<Sum>nWord \<leftarrow> nameWords. name_word_score nWord qWord) +
        (\<Sum>iWord \<leftarrow> idWords. id_word_score iWord qWord))"

definition domain_bonus :: "string option \<Rightarrow> string \<Rightarrow> int" where
  "domain_bonus hint eid =
     (if truthy hint \<and> startsWith eid (str hint @ ''.'') then 150 else 0)"

text \<open>
  The area of an entity as the search resolves it: the area of its own \<^verbatim>\<open>area_id\<close> attribute
  when that names a known area, otherwise the area of the first device that lists the entity.
  \<^verbatim>\<open>
  if (entity.attributes?.area_id && this.areas[entity.attributes.area_id]) {
    entityArea = this.areas[entity.attributes.area_id];
  } else {
    const device = Object.values(this.devices).find((d) => d.entities?.includes?.(id));
    if (device?.area_id && this.areas[device.area_id]) entityArea = this.areas[device.area_id];
  }
  \<close>
\<close>

definition entityArea ::
  "(string \<rightharpoonup> Area) \<Rightarrow> Device list \<Rightarrow> string \<Rightarrow> Entity \<Rightarrow> Area option" where
  "entityArea ars devs eid entity =
     (if truthy (attr_area_id entity) \<and> ars (str (attr_area_id entity)) \<noteq> None
      then ars (str (attr_area_id entity))
      else (case find (\<lambda>d. eid \<in> set (device_entities d)) devs of
              None \<Rightarrow> None
            | Some device \<Rightarrow>
                if truthy (device_area_id device) then ars (str (device_area_id device)) else None))"

definition area_bonus :: "Bridge \<Rightarrow> string option \<Rightarrow> string \<Rightarrow> Entity \<Rightarrow> int" where
  "area_bonus b hint eid entity =
     (if truthy hint then
        (let normalizedAreaHint = normalizeName (str hint)
         in (case entityArea (b_areas b) (map snd (b_devices b)) eid entity of
               None \<Rightarrow> 0
             | Some area \<Rightarrow> if normalizeName (area_name area) = normalizedAreaHint then 150 else 0))
      else 0)"

definition unavailable_penalty :: "Entity \<Rightarrow> int" where
  "unavailable_penalty entity =
     (if state entity = ''unavailable'' \<or> state entity = ''unknown'' then 50 else 0)"

definition token_score :: "SearchArgs \<Rightarrow> string \<Rightarrow> Entity \<Rightarrow> int" where
  "token_score args eid entity =
     word_score (words_of (normalizeName (search_friendlyName eid entity)))
       (words_of (normalizeName eid)) (words_of (normalizeName (str (query args))))"

text \<open>The score of one entity: the sum of all the signals, in the order of the source.\<close>

definition score_of :: "Bridge \<Rightarrow> SearchArgs \<Rightarrow> string \<Rightarrow> Entity \<Rightarrow> int" where
  "score_of b args eid entity =
     (let normalizedQuery = normalizeName (str (query args));
          normalizedName = normalizeName (search_friendlyName eid entity);
          normalizedId = normalizeName eid
      in exact_score normalizedName normalizedId normalizedQuery
         + prefix_score normalizedName normalizedId normalizedQuery
         + contains_score normalizedName normalizedId normalizedQuery
         + token_score args eid entity
         + domain_bonus (domain_hint args) eid
         + area_bonus b (area_hint args) eid entity
         - unavailable_penalty entity)"

record SearchResult =
  r_entity_id :: string
  r_friendly_name :: string
  r_domain :: string
  r_state :: string
  r_score :: int
  r_relevance :: string

definition relevance :: "int \<Rightarrow> string" where
  "relevance score = (if score \<ge> 500 then ''high'' else if score \<ge> 100 then ''medium'' else ''low'')"

definition scored_entry :: "Bridge \<Rightarrow> SearchArgs \<Rightarrow> string \<times> Entity \<Rightarrow> SearchResult" where
  "scored_entry b args p =
     (case p of (eid, entity) \<Rightarrow>
       \<lparr>r_entity_id = eid,
        r_friendly_name = search_friendlyName eid entity,
        r_domain = (case split_on CHR ''.'' eid of [] \<Rightarrow> [] | d # _ \<Rightarrow> d),
        r_state = state entity,
        r_score = score_of b args eid entity,
        r_relevance = relevance (score_of b args eid entity)\<rparr>)"

text \<open>The array \<^verbatim>\<open>scored\<close>: the entities whose score is positive, in iteration order.\<close>

definition scored :: "Bridge \<Rightarrow> SearchArgs \<Rightarrow> SearchResult list" where
  "scored b args =
     map (scored_entry b args) (filter (\<lambda>(eid, entity). score_of b args eid entity > 0) (b_entities b))"

text \<open>\<^verbatim>\<open>xs.slice(0, n)\<close>: a negative \<^verbatim>\<open>n\<close> counts from the end.\<close>

definition slice0 :: "'a list \<Rightarrow> int \<Rightarrow> 'a list" where
  "slice0 xs n = (if n < 0 then take (nat (int (length xs) + n)) xs else take (nat n) xs)"

text \<open>
  \<^verbatim>\<open>
  scored.sort((a, b) => b.score - a.score);
  const results = scored.slice(0, limit);
  \<close>
  \<^verbatim>\<open>Array.prototype.sort\<close> is stable, as is \<^const>\<open>sort_key\<close>. The model returns the array
  \<^verbatim>\<open>results\<close>, or the error thrown for a missing query; the fields of a result that restate
  device and area names, and the suggestions built from \<^verbatim>\<open>results\<close>, are left out.
\<close>

definition searchEntitiesFuzzy :: "Bridge \<Rightarrow> SearchArgs \<Rightarrow> string + SearchResult list" where
  "searchEntitiesFuzzy b args =
     (if \<not> truthy (query args) then Inl ''query is required''
      else Inr (slice0 (sort_key (\<lambda>r. - r_score r) (scored b args))
                  (case limit args of None \<Rightarrow> 10 | Some n \<Rightarrow> n)))"

text \<open>
  The sentences about ranking speak of a candidate that matches the query exactly and of one
  that only starts with it.
\<close>

definition exact_match :: "SearchArgs \<Rightarrow> string \<Rightarrow> Entity \<Rightarrow> bool" where
  "exact_match args eid entity =
     (normalizeName (search_friendlyName eid entity) = normalizeName (str (query args))
      \<or> normalizeName eid = normalizeName (str (query args)))"

definition prefix_only_match :: "SearchArgs \<Rightarrow> string \<Rightarrow> Entity \<Rightarrow> bool" where
  "prefix_only_match args eid entity =
     ((startsWith (normalizeName (search_friendlyName eid entity)) (normalizeName (str (query args)))
       \<or> startsWith (normalizeName eid) (normalizeName (str (query args))))
      \<and> \<not> exact_match args eid entity)"

text \<open>The position of an entity in a result list, counted from 0.\<close>

fun rank_of :: "string \<Rightarrow> SearchResult list \<Rightarrow> nat option" where
  "rank_of eid [] = None"
| "rank_of eid (r # rs) =
     (if r_entity_id r = eid then Some 0 else map_option Suc (rank_of eid rs))"

section \<open>CacheManager (cache.ts)\<close>

text \<open>
  A cached value is \<^verbatim>\<open>T | null\<close>. A record is \<^verbatim>\<open>CachedData<T>\<close>. The in-memory tier is the
  \<^verbatim>\<open>Map\<close> \<^verbatim>\<open>memoryCache\<close>; the durable tier is the directory of JSON files, one per key,
  here the map from a key to the record its file parses to (\<^term>\<open>None\<close> when the file is
  missing or unreadable, which \<^verbatim>\<open>get\<close> catches and treats as a miss). The values cached are
  JSON values, which \<^verbatim>\<open>JSON.parse\<close> gives back as \<^verbatim>\<open>JSON.stringify\<close> took them.
\<close>

datatype 'a nullable = Null | Value 'a

record 'a CachedData =
  data :: "'a nullable"
  timestamp :: int
  ttl :: int

record 'a CacheManager =
  cacheTTL :: int
  memoryCache :: "string \<rightharpoonup> 'a CachedData"
  diskCache :: "string \<rightharpoonup> 'a CachedData"

definition fresh :: "int \<Rightarrow> 'a CachedData \<Rightarrow> bool" where
  "fresh now cached = (now - timestamp cached < ttl cached)"

text \<open>
  \<^verbatim>\<open>
  async get<T>(key: string): Promise<T | null> {
    const memoryCached = this.memoryCache.get(key);
    if (memoryCached && Date.now() - memoryCached.timestamp < memoryCached.ttl) {
      return memoryCached.data as T;
    }
    try {
      const cachePath = this.getCachePath(key);
      const data = await fs.readFile(cachePath, 'utf-8');
      const cached: CachedData<T> = JSON.parse(data);
      if (Date.now() - cached.timestamp < cached.ttl) {
        this.memoryCache.set(key, cached);
        return cached.data;
      }
    } catch (error) { }
    return null;
  }
  \<close>
  The two readings of the clock are the arguments \<open>now1\<close> and \<open>now2\<close>. The result is the value
  returned and the cache after the call. \<open>read_disk\<close> is the part under the comment
  \<^verbatim>\<open>// Check disk cache\<close>, down to the final \<^verbatim>\<open>return null\<close>.
\<close>

definition read_disk ::
  "'a CacheManager \<Rightarrow> int \<Rightarrow> string \<Rightarrow> 'a nullable \<times> 'a CacheManager" where
  "read_disk c now2 key =
     (case diskCache c key of
        Some cached \<Rightarrow>
          if fresh now2 cached
          then (data cached, c\<lparr>memoryCache := (memoryCache c)(key \<mapsto> cached)\<rparr>)
          else (Null, c)
      | None \<Rightarrow> (Null, c))"

definition get_cache ::
  "'a CacheManager \<Rightarrow> int \<Rightarrow> int \<Rightarrow> string \<Rightarrow> 'a nullable \<times> 'a CacheManager" where
  "get_cache c now1 now2 key =
     (case memoryCache c key of
        Some memoryCached \<Rightarrow>
          if fresh now1 memoryCached then (data memoryCached, c) else read_disk c now2 key
      | None \<Rightarrow> read_disk c now2 key)"

text \<open>
  \<^verbatim>\<open>
  async set<T>(key: string, data: T, ttl: number = this.cacheTTL): Promise<void> {
    const cached: CachedData<T> = { data, timestamp: Date.now(), ttl };
    this.memoryCache.set(key, cached);
    try {
      const cachePath = this.getCachePath(key);
      await fs.writeFile(cachePath, JSON.stringify(cached), 'utf-8');
    } catch (error) { console.error('Failed to write cache to disk:', error); }
  }
  \<close>
  \<open>written\<close> tells whether the write of the file succeeded; a failed write leaves the file as
  it was.
\<close>

definition set_cache ::
  "'a CacheManager \<Rightarrow> int \<Rightarrow> string \<Rightarrow> 'a nullable \<Rightarrow> int option \<Rightarrow> bool \<Rightarrow> 'a CacheManager" where
  "set_cache c now key d ttl_arg written =
     (let cached = \<lparr>data = d, timestamp = now,
                     ttl = (case ttl_arg of None \<Rightarrow> cacheTTL c | Some t \<Rightarrow> t)\<rparr>;
          c1 = c\<lparr>memoryCache := (memoryCache c)(key \<mapsto> cached)\<rparr>
      in if written then c1\<lparr>diskCache := (diskCache c1)(key \<mapsto> cached)\<rparr> else c1)"

text \<open>
  \<^verbatim>\<open>
  async getOrFetch<T>(key: string, fetchFn: () => Promise<T>, ttl: number = this.cacheTTL): Promise<T> {
    const cached = await this.get<T>(key);
    if (cached !== null) { return cached; }
    const data = await fetchFn();
    await this.set(key, data, ttl);
    return data;
  }
  \<close>
  The fetch function acts on the world outside the cache, of type \<open>'w\<close>: it returns the new
  world with either the error it rejects with (\<^term>\<open>Inl e\<close>) or the value it resolves to.
  \<open>now3\<close> is the clock read by \<^verbatim>\<open>set\<close>. The result is the outcome for the caller (the rejection
  or the value), the cache and the world after the call.
\<close>

definition getOrFetch ::
  "'a CacheManager \<Rightarrow> int \<Rightarrow> int \<Rightarrow> int \<Rightarrow> string \<Rightarrow> ('w \<Rightarrow> ('e + 'a nullable) \<times> 'w) \<Rightarrow>
   int option \<Rightarrow> bool \<Rightarrow> 'w \<Rightarrow> ('e + 'a nullable) \<times> 'a CacheManager \<times> 'w" where
  "getOrFetch c now1 now2 now3 key fetchFn ttl_arg written w =
     (case get_cache c now1 now2 key of
        (cached, c1) \<Rightarrow>
          if cached \<noteq> Null then (Inr cached, c1, w)
          else (case fetchFn w of
                  (Inl e, w1) \<Rightarrow> (Inl e, c1, w1)
                | (Inr d, w1) \<Rightarrow> (Inr d, set_cache c1 now3 key d ttl_arg written, w1)))"

text \<open>The two tiers agree on a key when the file, if there is one, holds the record in memory.\<close>

definition tiers_agree :: "'a CacheManager \<Rightarrow> string \<Rightarrow> bool" where
  "tiers_agree c key = (diskCache c key = None \<or> diskCache c key = memoryCache c key)"

section \<open>A registry with two fans\<close>

text \<open>
  Two entities share the display name \<^verbatim>\<open>Fan\<close>. The office fan carries its area as an
  attribute; the bedroom fan has no area attribute and belongs to a device placed in the
  bedroom.
\<close>

definition office_fan :: Entity where
  "office_fan = \<lparr>entity_id = ''fan.office_fan'', state = ''on'', attr_friendly_name = Some ''Fan'',
                  attr_area_id = Some ''office'', attr_floor = None\<rparr>"

definition bedroom_fan :: Entity where
  "bedroom_fan = \<lparr>entity_id = ''fan.bedroom_fan'', state = ''on'', attr_friendly_name = Some ''Fan'',
                   attr_area_id = None, attr_floor = None\<rparr>"

definition fan_areas :: "Area list" where
  "fan_areas = [\<lparr>area_id = ''office'', area_name = ''Office''\<rparr>,
                \<lparr>area_id = ''bedroom'', area_name = ''Bedroom''\<rparr>]"

definition fan_device :: Device where
  "fan_device = \<lparr>device_id = ''d1'', device_area_id = Some ''bedroom'',
                  device_entities = [''fan.bedroom_fan'']\<rparr>"

definition fan_devices :: "Device list" where
  "fan_devices = [fan_device]"

definition fan_resolver :: NameResolver where
  "fan_resolver =
     setAreas (setDevices (setEntities empty_resolver [office_fan, bedroom_fan]) fan_devices) fan_areas"

text \<open>
  The state of the bridge for the same registry: the entities and the index are those that
  \<^verbatim>\<open>buildEntityIndex\<close> builds from the two fans, written out.
\<close>

definition fan_bridge :: Bridge where
  "fan_bridge =
     \<lparr>b_entities = [(''fan.office_fan'', office_fan), (''fan.bedroom_fan'', bedroom_fan)],
      b_nameIndex = [(''fan'', [''fan.office_fan'', ''fan.bedroom_fan'']),
                     (''fan_office_fan'', [''fan.office_fan'']),
                     (''fan_bedroom_fan'', [''fan.bedroom_fan''])],
      b_areas = areas fan_resolver,
      b_devices = [(''d1'', fan_device)]\<rparr>"

definition fan_args :: ResolveArgs where
  "fan_args = \<lparr>arg_entity_id = None, arg_name = Some ''fan'', arg_area = Some ''bedroom'',
               arg_floor = None, arg_domain = None\<rparr>"

section \<open>A registry with an entity named Constructor\<close>

text \<open>
  Three entities with display names. The second is named \<^verbatim>\<open>Constructor\<close>, which normalizes to
  \<^verbatim>\<open>constructor\<close>. The registry before the rebuild holds the first and the third.
\<close>

definition kitchen_light :: Entity where
  "kitchen_light = \<lparr>entity_id = ''light.kitchen'', state = ''on'',
                     attr_friendly_name = Some ''Kitchen'', attr_area_id = None, attr_floor = None\<rparr>"

definition site_sensor :: Entity where
  "site_sensor = \<lparr>entity_id = ''sensor.site'', state = ''3'',
                   attr_friendly_name = Some ''Constructor'', attr_area_id = None, attr_floor = None\<rparr>"

definition hall_light :: Entity where
  "hall_light = \<lparr>entity_id = ''light.hall'', state = ''off'',
                  attr_friendly_name = Some ''Hall'', attr_area_id = None, attr_floor = None\<rparr>"

definition by_name :: "string \<Rightarrow> ResolveArgs" where
  "by_name n = \<lparr>arg_entity_id = None, arg_name = Some n, arg_area = None,
                 arg_floor = None, arg_domain = None\<rparr>"

definition old_bridge :: Bridge where
  "old_bridge = snd (buildEntityIndex empty_bridge (Data [kitchen_light, hall_light]))"

definition rebuilt_bridge :: Bridge where
  "rebuilt_bridge = snd (buildEntityIndex old_bridge (Data [kitchen_light, site_sensor, hall_light]))"

text \<open>An entity without display name: its name is derived from the identifier.\<close>

definition porch_sensor :: Entity where
  "porch_sensor = \<lparr>entity_id = ''sensor.porch.temp'', state = ''21'',
                    attr_friendly_name = None, attr_area_id = None, attr_floor = None\<rparr>"

section \<open>Two pools for the search\<close>

text \<open>
  The query is \<^verbatim>\<open>fan\<close>. The switch is named exactly \<^verbatim>\<open>Fan\<close>. The second entity of the first
  pool starts with the query and repeats it as a word; the second entity of the second pool
  starts with the query and goes on with another word.
\<close>

definition fan_query :: SearchArgs where
  "fan_query = \<lparr>query = Some ''fan'', limit = None, domain_hint = None, area_hint = None\<rparr>"

definition fan_switch :: Entity where
  "fan_switch = \<lparr>entity_id = ''switch.s1'', state = ''on'', attr_friendly_name = Some ''Fan'',
                  attr_area_id = None, attr_floor = None\<rparr>"

definition fan_fan_fan :: Entity where
  "fan_fan_fan = \<lparr>entity_id = ''fan.fan_fan'', state = ''on'',
                   attr_friendly_name = Some ''Fan Fan Fan Fan Fan Fan Fan'',
                   attr_area_id = None, attr_floor = None\<rparr>"

definition fan_ceiling :: Entity where
  "fan_ceiling = \<lparr>entity_id = ''fan.ceiling'', state = ''on'',
                   attr_friendly_name = Some ''Fan Ceiling'',
                   attr_area_id = None, attr_floor = None\<rparr>"

definition repeating_pool :: Bridge where
  "repeating_pool =
     \<lparr>b_entities = [(''switch.s1'', fan_switch), (''fan.fan_fan'', fan_fan_fan)],
      b_nameIndex = [], b_areas = Map.empty, b_devices = []\<rparr>"

definition ceiling_pool :: Bridge where
  "ceiling_pool =
     \<lparr>b_entities = [(''fan.ceiling'', fan_ceiling), (''switch.s1'', fan_switch)],
      b_nameIndex = [], b_areas = Map.empty, b_devices = []\<rparr>"

definition ceiling_results :: "SearchResult list" where
  "ceiling_results =
     (case searchEntitiesFuzzy ceiling_pool fan_query of Inl err \<Rightarrow> [] | Inr results \<Rightarrow> results)"

section \<open>Caches and fetch functions to run\<close>

text \<open>
  \<^verbatim>\<open>new CacheManager(cacheDir, cacheTTL)\<close>: the in-memory tier starts empty, the durable tier is
  whatever the directory holds.
\<close>

definition new_CacheManager :: "int \<Rightarrow> (string \<rightharpoonup> 'a CachedData) \<Rightarrow> 'a CacheManager" where
  "new_CacheManager t dir = \<lparr>cacheTTL = t, memoryCache = Map.empty, diskCache = dir\<rparr>"

text \<open>
  Fetch functions on a world that counts the calls: one resolves to a value, one resolves to
  \<^verbatim>\<open>null\<close>, one rejects.
\<close>

definition fetch_seven :: "nat \<Rightarrow> (string + nat nullable) \<times> nat" where
  "fetch_seven w = (Inr (Value 7), w + 1)"

definition fetch_null :: "nat \<Rightarrow> (string + nat nullable) \<times> nat" where
  "fetch_null w = (Inr Null, w + 1)"



text \<open>The cache after a first \<^verbatim>\<open>getOrFetch\<close> whose fetch function resolved to \<^verbatim>\<open>null\<close>.\<close>

definition null_cached :: "nat CacheManager" where
  "null_cached =
     fst (snd (getOrFetch (new_CacheManager 60000 Map.empty) 0 1 2 ''areas'' fetch_null
                 (Some 1000) True 0))"

chapter \<open>Properties\<close>

section \<open>Normalization\<close>

lemma underscore_not_alnum: "\<not> is_lower_alnum CHR ''_''"
  by (simp add: is_lower_alnum_def)

lemma lower_alnum_fixed: "is_lower_alnum c \<Longrightarrow> toLowerCase_char c = c"
  by (auto simp: is_lower_alnum_def toLowerCase_char_def Let_def)

lemma lower_underscore: "toLowerCase_char CHR ''_'' = CHR ''_''"
  by (simp add: toLowerCase_char_def)

lemma dropWhile_other_head:
  "case dropWhile (\<lambda>d. \<not> is_lower_alnum d) cs of [] \<Rightarrow> True | d # _ \<Rightarrow> is_lower_alnum d"
  by (induction cs) auto

lemma replace_runs_head:
  "(case xs of [] \<Rightarrow> True | d # _ \<Rightarrow> is_lower_alnum d) \<Longrightarrow>
   (case replace_runs xs of [] \<Rightarrow> True | d # _ \<Rightarrow> is_lower_alnum d)"
  by (cases xs) auto

lemma token_shape_replace_runs: "token_shape (replace_runs s)"
proof (induction s rule: replace_runs.induct)
  case 1
  show ?case by simp
next
  case (2 c cs)
  show ?case
  proof (cases "is_lower_alnum c")
    case True
    with 2 show ?thesis by simp
  next
    case False
    have "case replace_runs (dropWhile (\<lambda>d. \<not> is_lower_alnum d) cs) of
            [] \<Rightarrow> True | d # _ \<Rightarrow> is_lower_alnum d"
      by (rule replace_runs_head) (rule dropWhile_other_head)
    with False 2 show ?thesis by (simp add: underscore_not_alnum)
  qed
qed

lemma token_shape_fixed: "token_shape t \<Longrightarrow> replace_runs t = t"
proof (induction t)
  case Nil
  show ?case by simp
next
  case (Cons c cs)
  show ?case
  proof (cases "is_lower_alnum c")
    case True
    with Cons show ?thesis by simp
  next
    case False
    with Cons.prems have c: "c = CHR ''_''"
      and h: "case cs of [] \<Rightarrow> True | d # _ \<Rightarrow> is_lower_alnum d"
      and n: "token_shape cs" by auto
    from h have "dropWhile (\<lambda>d. \<not> is_lower_alnum d) cs = cs" by (cases cs) auto
    with False c n Cons.IH show ?thesis by simp
  qed
qed

lemma token_shape_chars: "token_shape t \<Longrightarrow> c \<in> set t \<Longrightarrow> is_lower_alnum c \<or> c = CHR ''_''"
  by (induction t) (auto split: if_splits)

lemma token_shape_lower: "token_shape t \<Longrightarrow> toLowerCase t = t"
  unfolding toLowerCase_def
  by (rule map_idI) (auto dest: token_shape_chars simp: lower_alnum_fixed lower_underscore)

lemma token_shape_dropWhile: "token_shape t \<Longrightarrow> token_shape (dropWhile Q t)"
  by (induction t) (auto split: if_splits)

lemma token_shape_take: "token_shape t \<Longrightarrow> token_shape (take n t)"
proof (induction t arbitrary: n)
  case Nil
  show ?case by simp
next
  case (Cons c cs)
  show ?case
  proof (cases n)
    case 0
    then show ?thesis by simp
  next
    case (Suc m)
    from Cons.prems have "token_shape cs" by (auto split: if_splits)
    then have "token_shape (take m cs)" by (rule Cons.IH)
    moreover have "(case cs of [] \<Rightarrow> True | d # _ \<Rightarrow> is_lower_alnum d) \<Longrightarrow>
       (case take m cs of [] \<Rightarrow> True | d # _ \<Rightarrow> is_lower_alnum d)"
      by (cases cs; cases m) auto
    ultimately show ?thesis using Cons.prems Suc by (auto split: if_splits)
  qed
qed

lemma strip_end_take:
  "rev (dropWhile Q (rev s)) = take (length s - length (takeWhile Q (rev s))) s"
  by (simp add: dropWhile_eq_drop drop_rev)

lemma token_shape_strip: "token_shape t \<Longrightarrow> token_shape (strip_underscores t)"
  unfolding strip_underscores_def
  by (subst strip_end_take) (intro token_shape_take token_shape_dropWhile)

lemma strip_no_lead:
  "dropWhile Q (rev (dropWhile Q (rev (dropWhile Q s)))) = rev (dropWhile Q (rev (dropWhile Q s)))"
proof -
  define u where "u = dropWhile Q s"
  define k where "k = length u - length (takeWhile Q (rev u))"
  have v: "rev (dropWhile Q (rev u)) = take k u"
    unfolding k_def by (rule strip_end_take)
  have "take k u = [] \<or> \<not> Q (hd (take k u))"
  proof (cases "take k u = []")
    case True
    then show ?thesis by simp
  next
    case False
    then have "u \<noteq> []" and "0 < k" by auto
    then have "hd (take k u) = hd u" by (cases u; cases k) auto
    moreover from \<open>u \<noteq> []\<close> have "\<not> Q (hd u)"
      unfolding u_def by (rule hd_dropWhile)
    ultimately show ?thesis by simp
  qed
  then have "dropWhile Q (take k u) = take k u"
    by (simp add: dropWhile_eq_self_iff)
  then show ?thesis
    using v unfolding u_def by simp
qed

lemma strip_idem: "strip_underscores (strip_underscores s) = strip_underscores s"
  unfolding strip_underscores_def by (simp add: strip_no_lead)

lemma token_shape_normalizeName: "token_shape (normalizeName s)"
  unfolding normalizeName_def by (intro token_shape_strip token_shape_replace_runs)

lemma normalizeName_examples:
  "normalizeName ''Living Room'' = ''living_room''"
  "normalizeName ''living-room'' = ''living_room''"
  "normalizeName ''LIVING   ROOM'' = ''living_room''"
  "normalizeName ''light.sam_office_tube'' = ''light_sam_office_tube''"
  by code_simp+

text \<open>
  Claim C9. Name normalization is idempotent: normalizing a normalized name changes nothing,
  for every input string.
\<close>

theorem normalizeName_idempotent: "normalizeName (normalizeName s) = normalizeName s"
proof -
  have n: "token_shape (strip_underscores (replace_runs (toLowerCase s)))"
    by (intro token_shape_strip token_shape_replace_runs)
  show ?thesis
    unfolding normalizeName_def
    by (simp add: token_shape_lower [OF n] token_shape_fixed [OF n] strip_idem)
qed

section \<open>The name index\<close>

lemma lookup_index_push:
  "lookup (index_push idx k i) t = (if t = k then lookup idx k @ [i] else lookup idx t)"
  by (induction idx k i rule: index_push.induct) (auto simp: lookup_def)

lemma lookup_index_push_mono:
  "x \<in> set (lookup idx t) \<Longrightarrow> x \<in> set (lookup (index_push idx k i) t)"
  by (auto simp: lookup_index_push)

lemma index_entity_nameIndex:
  "nameIndex (index_entity e r) =
     index_push (index_push (nameIndex r) (normalizeName (friendlyName e)) (entity_id e))
       (normalizeName (replace_first CHR ''.'' CHR '' '' (entity_id e))) (entity_id e)"
  by (simp add: index_entity_def Let_def)

lemma index_entity_mono:
  "x \<in> set (lookup (nameIndex r) t) \<Longrightarrow> x \<in> set (lookup (nameIndex (index_entity e r)) t)"
  unfolding index_entity_nameIndex by (intro lookup_index_push_mono)

lemma fold_index_entity_mono:
  "x \<in> set (lookup (nameIndex r) t) \<Longrightarrow> x \<in> set (lookup (nameIndex (fold index_entity es r)) t)"
  by (induction es arbitrary: r) (auto intro: index_entity_mono)

lemma index_entity_adds:
  "entity_id e \<in> set (lookup (nameIndex (index_entity e r)) (normalizeName (friendlyName e)))"
  "entity_id e \<in> set (lookup (nameIndex (index_entity e r))
      (normalizeName (replace_first CHR ''.'' CHR '' '' (entity_id e))))"
  by (simp_all add: index_entity_nameIndex lookup_index_push)

lemma fold_index_entity_complete:
  assumes "e \<in> set es"
  shows "entity_id e \<in> set (lookup (nameIndex (fold index_entity es r)) (normalizeName (friendlyName e)))"
    and "entity_id e \<in> set (lookup (nameIndex (fold index_entity es r))
      (normalizeName (replace_first CHR ''.'' CHR '' '' (entity_id e))))"
  using assms
  by (induction es arbitrary: r) (auto intro: fold_index_entity_mono index_entity_adds)

text \<open>
  The identifier is indexed under the normalization of \<^verbatim>\<open>id.replace('.', ' ')\<close>. A dot and a
  space are both outside \<^verbatim>\<open>[a-z0-9]\<close>, so this is the normalization of the identifier itself.
\<close>

lemma toLowerCase_char_dot: "toLowerCase_char c = CHR ''.'' \<longleftrightarrow> c = CHR ''.''"
proof (cases "65 \<le> (of_char c :: int) \<and> (of_char c :: int) \<le> 90")
  case True
  have "char_of (of_char c + 32 :: int) \<noteq> CHR ''.''"
  proof
    assume "char_of (of_char c + 32 :: int) = CHR ''.''"
    then have "(of_char (char_of (of_char c + 32 :: int)) :: int) = of_char CHR ''.''" by simp
    then have "(of_char c + 32 :: int) mod 256 = 46" by simp
    with True show False by presburger
  qed
  moreover from True have "c \<noteq> CHR ''.''" by auto
  ultimately show ?thesis using True by (simp add: toLowerCase_char_def Let_def)
next
  case False
  then show ?thesis by (auto simp: toLowerCase_char_def Let_def)
qed

lemma toLowerCase_replace_first:
  "toLowerCase (replace_first CHR ''.'' CHR '' '' s) = replace_first CHR ''.'' CHR '' '' (toLowerCase s)"
  unfolding toLowerCase_def
  by (induction s) (auto simp: toLowerCase_char_dot, simp add: toLowerCase_char_def)

lemma dropWhile_replace_first:
  "dropWhile (\<lambda>d. \<not> is_lower_alnum d) (replace_first CHR ''.'' CHR '' '' cs) =
     dropWhile (\<lambda>d. \<not> is_lower_alnum d) cs
   \<or> dropWhile (\<lambda>d. \<not> is_lower_alnum d) (replace_first CHR ''.'' CHR '' '' cs) =
     replace_first CHR ''.'' CHR '' '' (dropWhile (\<lambda>d. \<not> is_lower_alnum d) cs)"
  by (induction cs) (auto simp: is_lower_alnum_def)

lemma replace_runs_replace_first:
  "replace_runs (replace_first CHR ''.'' CHR '' '' s) = replace_runs s"
proof (induction s rule: replace_runs.induct)
  case 1
  show ?case by simp
next
  case (2 c cs)
  show ?case
  proof (cases "c = CHR ''.''")
    case True
    then show ?thesis by (simp add: is_lower_alnum_def)
  next
    case False
    show ?thesis
    proof (cases "is_lower_alnum c")
      case True
      with False 2 show ?thesis by simp
    next
      case n: False
      from dropWhile_replace_first [of cs] 2(2) [OF n]
      have "replace_runs (dropWhile (\<lambda>d. \<not> is_lower_alnum d) (replace_first CHR ''.'' CHR '' '' cs))
          = replace_runs (dropWhile (\<lambda>d. \<not> is_lower_alnum d) cs)"
        by auto
      with False n show ?thesis by simp
    qed
  qed
qed

lemma normalizeName_replace_first:
  "normalizeName (replace_first CHR ''.'' CHR '' '' s) = normalizeName s"
  by (simp add: normalizeName_def toLowerCase_replace_first replace_runs_replace_first)

lemma setEntities_complete:
  assumes "e \<in> set ents"
  shows "entity_id e \<in> set (lookup (nameIndex (setEntities r ents)) (normalizeName (friendlyName e)))"
    and "entity_id e \<in> set (lookup (nameIndex (setEntities r ents)) (normalizeName (entity_id e)))"
  using fold_index_entity_complete [OF assms]
  by (simp_all add: setEntities_def normalizeName_replace_first)

text \<open>
  The display name spelled out: the \<^verbatim>\<open>friendly_name\<close> attribute when it is a non-empty string,
  otherwise the parts of the identifier after its first dot, joined by spaces.
\<close>

lemma setEntities_complete_named:
  assumes "e \<in> set ents" and "attr_friendly_name e = Some n" and "n \<noteq> []"
  shows "entity_id e \<in> set (lookup (nameIndex (setEntities r ents)) (normalizeName n))"
  using setEntities_complete(1) [OF assms(1), of r] assms(2,3)
  by (simp add: friendlyName_def truthy_def str_def)

lemma setEntities_complete_unnamed:
  assumes "e \<in> set ents" and "attr_friendly_name e = None \<or> attr_friendly_name e = Some []"
  shows "entity_id e \<in> set (lookup (nameIndex (setEntities r ents))
           (normalizeName (join_with '' '' (drop 1 (split_on CHR ''.'' (entity_id e))))))"
  using setEntities_complete(1) [OF assms(1), of r] assms(2)
  by (auto simp: friendlyName_def truthy_def)

lemma setEntities_examples:
  "lookup (nameIndex (setEntities empty_resolver [porch_sensor, site_sensor])) ''porch_temp''
     = [''sensor.porch.temp'']"
  "lookup (nameIndex (setEntities empty_resolver [porch_sensor, site_sensor])) ''sensor_porch_temp''
     = [''sensor.porch.temp'']"
  "lookup (nameIndex (setEntities empty_resolver [porch_sensor, site_sensor])) ''constructor''
     = [''sensor.site'']"
  "lookup (nameIndex (setEntities empty_resolver [porch_sensor, site_sensor])) ''sensor_site''
     = [''sensor.site'']"
  by code_simp+

section \<open>The index of the bridge\<close>

text \<open>
  Of the property names of \<^verbatim>\<open>Object.prototype\<close>, only \<^verbatim>\<open>constructor\<close> can be a normalized name:
  the others hold an upper-case letter or two underscores in a row.
\<close>

lemma prototype_names_of_token_shape:
  "filter token_shape object_prototype_names = [''constructor'']"
  by code_simp

lemma inherited_normalized_name:
  assumes "obj_get obj (normalizeName s) = Inherited"
  shows "normalizeName s = ''constructor''"
proof -
  from assms have "normalizeName s \<in> set object_prototype_names"
    by (simp add: obj_get_def split: option.splits if_splits)
  with token_shape_normalizeName [of s]
  have "normalizeName s \<in> set (filter token_shape object_prototype_names)" by simp
  then show ?thesis by (simp add: prototype_names_of_token_shape)
qed

lemma js_entries_example:
  "js_entries [(''b'', 1::nat), (''10'', 2), (''9'', 3), (''01'', 4)]
     = [(''9'', 3), (''10'', 2), (''b'', 1), (''01'', 4)]"
  by code_simp

lemma fan_bridge_built:
  "fst (buildEntityIndex empty_bridge (Data [office_fan, bedroom_fan])) = True"
  "b_entities (snd (buildEntityIndex empty_bridge (Data [office_fan, bedroom_fan]))) = b_entities fan_bridge"
  "b_nameIndex (snd (buildEntityIndex empty_bridge (Data [office_fan, bedroom_fan]))) = b_nameIndex fan_bridge"
  by code_simp+

text \<open>
  Claim C4. After the name index is built from an entity list, every entity of the list
  should be found under the normalization of its display name and under the normalization of
  its identifier. The index build of the bridge breaks this. Its index is a plain object, and
  for the entity named \<^verbatim>\<open>Constructor\<close> the test \<^verbatim>\<open>!this.nameIndex[normalized]\<close> reads the function
  inherited from \<^verbatim>\<open>Object.prototype\<close>, so no array is stored and \<^verbatim>\<open>push\<close> throws. The build ends
  there: that entity is filed under neither of its tokens, and the hall light, which comes
  after it in the list, is not filed at all. The \<^verbatim>\<open>Map\<close> of \<^verbatim>\<open>NameResolver.setEntities\<close> files all
  three entities of the same list.
\<close>

theorem constructor_name_breaks_index:
  "fst (buildEntityIndex empty_bridge (Data [kitchen_light, site_sensor, hall_light])) = False
   \<and> b_nameIndex (snd (buildEntityIndex empty_bridge (Data [kitchen_light, site_sensor, hall_light])))
       = [(''kitchen'', [''light.kitchen'']), (''light_kitchen'', [''light.kitchen''])]
   \<and> normalizeName (friendlyName site_sensor) = ''constructor''
   \<and> normalizeName (entity_id site_sensor) = ''sensor_site''
   \<and> normalizeName (friendlyName hall_light) = ''hall''
   \<and> normalizeName (entity_id hall_light) = ''light_hall''
   \<and> obj_get (b_nameIndex (snd (buildEntityIndex empty_bridge (Data [kitchen_light, site_sensor, hall_light]))))
        ''constructor'' = Inherited
   \<and> obj_get (b_nameIndex (snd (buildEntityIndex empty_bridge (Data [kitchen_light, site_sensor, hall_light]))))
        ''sensor_site'' = Undefined
   \<and> obj_get (b_nameIndex (snd (buildEntityIndex empty_bridge (Data [kitchen_light, site_sensor, hall_light]))))
        ''hall'' = Undefined
   \<and> obj_get (b_nameIndex (snd (buildEntityIndex empty_bridge (Data [kitchen_light, site_sensor, hall_light]))))
        ''light_hall'' = Undefined
   \<and> bridge_resolveEntityId (snd (buildEntityIndex empty_bridge (Data [kitchen_light, site_sensor, hall_light])))
        (by_name ''Hall'') = None
   \<and> nameIndex (setEntities empty_resolver [kitchen_light, site_sensor, hall_light])
       = [(''kitchen'', [''light.kitchen'']), (''light_kitchen'', [''light.kitchen'']),
          (''constructor'', [''sensor.site'']), (''sensor_site'', [''sensor.site'']),
          (''hall'', [''light.hall'']), (''light_hall'', [''light.hall''])]"
  by code_simp

section \<open>Rebuilding the index between lookups\<close>

text \<open>
  Claim C7. No lookup should see a partly built index: an entity that is in the registry before
  and after a rebuild should never come back with zero candidates, and a rebuild that fails
  should leave the previous index as it was. In the bridge the hall light is filed by the first
  build and is resolved by name. The rebuild then receives a registry that holds the kitchen
  light, the entity named \<^verbatim>\<open>Constructor\<close> and the hall light: \<^verbatim>\<open>buildEntityIndex\<close> empties the
  index, files the kitchen light, throws at the second entity and swallows the error. The
  previous index is gone, the new one stops before the hall light, and the same lookup now
  returns nothing, while the kitchen light is still found.
\<close>

theorem failed_rebuild_leaves_partial_index:
  "b_nameIndex old_bridge
     = [(''kitchen'', [''light.kitchen'']), (''light_kitchen'', [''light.kitchen'']),
        (''hall'', [''light.hall'']), (''light_hall'', [''light.hall''])]
   \<and> fst (buildEntityIndex old_bridge (Data [kitchen_light, site_sensor, hall_light])) = False
   \<and> b_nameIndex rebuilt_bridge
     = [(''kitchen'', [''light.kitchen'']), (''light_kitchen'', [''light.kitchen''])]
   \<and> bridge_run old_bridge
        [Resolve (by_name ''Hall''),
         Rebuild (Data [kitchen_light, site_sensor, hall_light]),
         Resolve (by_name ''Hall''),
         Resolve (by_name ''light.hall''),
         Resolve (by_name ''Kitchen'')]
     = [Some ''light.hall'', None, None, Some ''light.kitchen'']"
  by code_simp

section \<open>Resolution\<close>

text \<open>
  Claim C2. A query that carries an explicit identifier (a non-empty \<^verbatim>\<open>entity_id\<close>, which is
  what the source's test \<^verbatim>\<open>if (args.entity_id)\<close> accepts) resolves to that identifier
  unchanged, whatever name, area, floor or domain it also carries and whatever the resolver
  holds: the registry and the index are not consulted. Both resolvers agree.
\<close>

theorem explicit_id_wins:
  assumes "arg_entity_id args = Some x" and "x \<noteq> []"
  shows "resolveEntityId r args = Some x \<and> bridge_resolveEntityId b args = Some x"
  using assms by (simp add: resolveEntityId_def bridge_resolveEntityId_def truthy_def)

theorem explicit_id_wins_witness:
  "resolveEntityId fan_resolver (fan_args\<lparr>arg_entity_id := Some ''light.not_in_registry''\<rparr>)
     = Some ''light.not_in_registry''
   \<and> bridge_resolveEntityId fan_bridge (fan_args\<lparr>arg_entity_id := Some ''light.not_in_registry''\<rparr>)
     = Some ''light.not_in_registry''"
  using explicit_id_wins [of "fan_args\<lparr>arg_entity_id := Some ''light.not_in_registry''\<rparr>"
      "''light.not_in_registry''" fan_resolver fan_bridge]
  by simp

section \<open>The area filter of the resolvers\<close>

lemma fan_bridge_index: "b_nameIndex fan_bridge = nameIndex fan_resolver"
  by code_simp

text \<open>
  Claim C1. In the disambiguation step, the area filter should keep the candidates whose area,
  taken from the entity's own area attribute or from its owning device, normalizes to the area
  hint. The filter of both resolvers reads the attribute only. In the registry with two fans
  the bedroom fan's area is known through its device alone: the search resolves it to the
  bedroom, whose name normalizes to the hint, yet the area filter keeps no candidate, so the
  query for the fan in the bedroom resolves to the office fan.
\<close>

theorem area_filter_ignores_owning_device:
  "entityArea (areas fan_resolver) fan_devices ''fan.bedroom_fan'' bedroom_fan
     = Some \<lparr>area_id = ''bedroom'', area_name = ''Bedroom''\<rparr>
   \<and> normalizeName ''Bedroom'' = normalizeName ''bedroom''
   \<and> areaFiltered (entities fan_resolver) (areas fan_resolver) ''bedroom''
        [''fan.office_fan'', ''fan.bedroom_fan''] = []
   \<and> resolveEntityId fan_resolver fan_args = Some ''fan.office_fan''
   \<and> bridge_resolveEntityId fan_bridge fan_args = Some ''fan.office_fan''"
  by code_simp

section \<open>The near-match test\<close>

lemma fuzzyMatch_loop_count:
  "fuzzyMatch_loop str1 str2 maxLen i differences =
     (differences + length (filter (\<lambda>j. char_at str1 j \<noteq> char_at str2 j) [i ..< maxLen]) \<le> 2)"
proof (induction str1 str2 maxLen i differences rule: fuzzyMatch_loop.induct)
  case (1 str1 str2 maxLen i differences)
  show ?case
  proof (cases "i < maxLen")
    case False
    then show ?thesis by (subst fuzzyMatch_loop.simps) simp
  next
    case True
    then have u: "[i ..< maxLen] = i # [i + 1 ..< maxLen]" by (simp add: upt_conv_Cons)
    define d where "d = (if char_at str1 i \<noteq> char_at str2 i then differences + 1 else differences)"
    have step: "fuzzyMatch_loop str1 str2 maxLen i differences =
        (if d > 2 then False else fuzzyMatch_loop str1 str2 maxLen (i + 1) d)"
      using True by (subst fuzzyMatch_loop.simps) (simp only: d_def Let_def if_True)
    have cnt: "differences + length (filter (\<lambda>j. char_at str1 j \<noteq> char_at str2 j) [i ..< maxLen])
        = d + length (filter (\<lambda>j. char_at str1 j \<noteq> char_at str2 j) [i + 1 ..< maxLen])"
      by (simp only: u d_def filter.simps) (simp split: if_splits)
    show ?thesis
    proof (cases "d > 2")
      case t: True
      then show ?thesis unfolding step cnt by simp
    next
      case f: False
      have "fuzzyMatch_loop str1 str2 maxLen (i + 1) d =
        (d + length (filter (\<lambda>j. char_at str1 j \<noteq> char_at str2 j) [i + 1 ..< maxLen]) \<le> 2)"
        using 1 [OF True d_def f] .
      with f show ?thesis unfolding step cnt by simp
    qed
  qed
qed

text \<open>
  Claim C8. The near-match test accepts two tokens exactly when their lengths differ by at
  most 2 and, over the length of the longer token, they differ at no more than 2 positions.
  A length difference above 2 is rejected by the first line of \<^verbatim>\<open>fuzzyMatch\<close>, before the loop
  that compares characters.
\<close>

theorem fuzzyMatch_iff:
  "fuzzyMatch str1 str2 =
     (\<bar>int (length str1) - int (length str2)\<bar> \<le> 2 \<and> mismatches str1 str2 \<le> 2)"
  unfolding fuzzyMatch_def mismatches_def fuzzyMatch_loop_count
  by simp

lemma fuzzyMatch_near_match: "fuzzyMatch str1 str2 = near_match str1 str2"
  unfolding fuzzyMatch_def near_match_def mismatches_def fuzzyMatch_loop_count
  by simp

lemma fuzzyMatch_examples:
  "fuzzyMatch ''ligt'' ''light''" "\<not> fuzzyMatch ''light'' ''television''"
  by code_simp+

section \<open>Ranking: exact matches and prefix matches\<close>

lemma startsWith_self: "startsWith s s"
  by (simp add: startsWith_def)

lemma includes_str_self: "includes_str s s"
  by (cases s) (simp_all add: startsWith_def)

lemma name_word_score_nonneg: "0 \<le> name_word_score n q"
  by (simp add: name_word_score_def)

lemma id_word_score_nonneg: "0 \<le> id_word_score n q"
  by (simp add: id_word_score_def)

lemma word_score_nonneg: "0 \<le> word_score ns is qs"
  unfolding word_score_def
  by (intro sum_list_nonneg) (auto intro!: add_nonneg_nonneg sum_list_nonneg
       simp: name_word_score_nonneg id_word_score_nonneg)

lemma token_score_nonneg: "0 \<le> token_score args eid e"
  by (simp add: token_score_def word_score_nonneg)

lemma domain_bonus_bounds: "0 \<le> domain_bonus h eid \<and> domain_bonus h eid \<le> 150"
  by (simp add: domain_bonus_def)

lemma area_bonus_bounds: "0 \<le> area_bonus b h eid e \<and> area_bonus b h eid e \<le> 150"
  by (simp add: area_bonus_def Let_def split: option.splits)

lemma unavailable_penalty_bounds: "0 \<le> unavailable_penalty e \<and> unavailable_penalty e \<le> 50"
  by (simp add: unavailable_penalty_def)

lemma exact_match_score:
  assumes "exact_match args eid e"
  shows "score_of b args eid e \<ge> 1700 + token_score args eid e
           + domain_bonus (domain_hint args) eid + area_bonus b (area_hint args) eid e
           - unavailable_penalty e"
proof -
  let ?q = "normalizeName (str (query args))"
  let ?n = "normalizeName (search_friendlyName eid e)"
  let ?i = "normalizeName eid"
  from assms have d: "?n = ?q \<or> ?i = ?q" by (simp add: exact_match_def)
  then have "exact_score ?n ?i ?q = 1000" by (simp add: exact_score_def)
  moreover from d have "prefix_score ?n ?i ?q = 500"
    by (auto simp: prefix_score_def startsWith_self)
  moreover from d have "contains_score ?n ?i ?q \<ge> 200"
    by (auto simp: contains_score_def includes_str_self)
  ultimately show ?thesis by (simp add: score_of_def Let_def)
qed

lemma prefix_only_match_score:
  assumes "prefix_only_match args eid e"
  shows "score_of b args eid e \<le> 950 + token_score args eid e
           + domain_bonus (domain_hint args) eid + area_bonus b (area_hint args) eid e
           - unavailable_penalty e"
proof -
  let ?q = "normalizeName (str (query args))"
  let ?n = "normalizeName (search_friendlyName eid e)"
  let ?i = "normalizeName eid"
  from assms have "\<not> (?n = ?q \<or> ?i = ?q)" by (simp add: prefix_only_match_def exact_match_def)
  then have "exact_score ?n ?i ?q = 0" by (simp add: exact_score_def)
  moreover have "prefix_score ?n ?i ?q \<le> 500" by (simp add: prefix_score_def)
  moreover have "contains_score ?n ?i ?q \<le> 450" by (simp add: contains_score_def)
  ultimately show ?thesis by (simp add: score_of_def Let_def)
qed

lemma exact_beats_prefix_score:
  assumes "exact_match args ida a" and "prefix_only_match args idb eb"
    and "token_score args idb eb < token_score args ida a + 400"
  shows "score_of b args idb eb < score_of b args ida a" and "0 < score_of b args ida a"
proof -
  note ea = exact_match_score [OF assms(1), of b]
  note pb = prefix_only_match_score [OF assms(2), of b]
  note bounds = domain_bonus_bounds [of "domain_hint args" ida]
    domain_bonus_bounds [of "domain_hint args" idb]
    area_bonus_bounds [of b "area_hint args" ida a]
    area_bonus_bounds [of b "area_hint args" idb eb]
    unavailable_penalty_bounds [of a] unavailable_penalty_bounds [of eb]
    token_score_nonneg [of args ida a]
  from ea pb bounds assms(3) show "score_of b args idb eb < score_of b args ida a" by linarith
  from ea bounds show "0 < score_of b args ida a" by linarith
qed

lemma rank_of_Some:
  "rank_of eid rs = Some j \<Longrightarrow> j < length rs \<and> r_entity_id (rs ! j) = eid"
  by (induction rs arbitrary: j) (auto split: if_splits)

lemma rank_of_exists:
  "i < length rs \<Longrightarrow> r_entity_id (rs ! i) = eid \<Longrightarrow> \<exists>i'. rank_of eid rs = Some i' \<and> i' \<le> i"
proof (induction rs arbitrary: i)
  case Nil
  then show ?case by simp
next
  case (Cons r rs)
  show ?case
  proof (cases "r_entity_id r = eid")
    case True
    then show ?thesis by simp
  next
    case False
    with Cons.prems obtain k where k: "i = Suc k" by (cases i) auto
    with Cons.prems have "k < length rs" "r_entity_id (rs ! k) = eid" by auto
    from Cons.IH [OF this] obtain i' where "rank_of eid rs = Some i'" "i' \<le> k" by blast
    with False k show ?thesis by simp
  qed
qed

lemma slice0_take: "\<exists>k. slice0 xs n = take k xs"
  by (auto simp: slice0_def)

lemma scored_entry_fields:
  "r_entity_id (scored_entry b args (eid, e)) = eid"
  "r_score (scored_entry b args (eid, e)) = score_of b args eid e"
  by (simp_all add: scored_entry_def)

lemma scored_set:
  "set (scored b args) =
     scored_entry b args ` {p \<in> set (b_entities b). score_of b args (fst p) (snd p) > 0}"
  by (auto simp: scored_def)

text \<open>
  Claim C3, as amended. Among the entities of one pool, a candidate that matches the query
  exactly is ranked strictly above a candidate that only starts with the query, provided the
  word-by-word score of the prefix candidate exceeds that of the exact candidate by less than
  400: wherever the prefix candidate stands in the results, the exact candidate stands
  earlier. (The other signals favour the exact match by at least 750; the two hint bonuses and
  the unavailable penalty can take back at most 350.)
\<close>

theorem exact_outranks_prefix:
  assumes dist: "distinct (map fst (b_entities b))"
    and a: "(ida, a) \<in> set (b_entities b)" and eb: "(idb, eb) \<in> set (b_entities b)"
    and ex: "exact_match args ida a" and pre: "prefix_only_match args idb eb"
    and tok: "token_score args idb eb < token_score args ida a + 400"
    and res: "searchEntitiesFuzzy b args = Inr results"
    and rb: "rank_of idb results = Some j"
  shows "\<exists>i. rank_of ida results = Some i \<and> i < j"
proof -
  define S where "S = sort_key (\<lambda>r. - r_score r) (scored b args)"
  from res obtain n where "results = slice0 S n"
    by (auto simp: searchEntitiesFuzzy_def S_def split: if_splits)
  with slice0_take [of S n] obtain k where results: "results = take k S" by auto
  have sorted: "sorted (map (\<lambda>r. - r_score r) S)" unfolding S_def by simp
  have setS: "set S = set (scored b args)" unfolding S_def by simp
  note sc = exact_beats_prefix_score [OF ex pre tok, of b]
  from rank_of_Some [OF rb] have j: "j < length results" "r_entity_id (results ! j) = idb" by auto
  then have jS: "j < length S" "j < k" and Sj: "results ! j = S ! j" by (auto simp: results)
  from jS have "S ! j \<in> set (scored b args)" using setS nth_mem by blast
  then obtain p where p: "p \<in> set (b_entities b)" "S ! j = scored_entry b args p"
    by (auto simp: scored_set)
  obtain pid pe where pp: "p = (pid, pe)" by (cases p)
  with p j Sj have "pid = idb" by (simp add: scored_entry_fields)
  with p pp eb dist have "pe = eb" by (metis eq_key_imp_eq_value)
  with p pp \<open>pid = idb\<close> have scb: "r_score (S ! j) = score_of b args idb eb"
    by (simp add: scored_entry_fields)
  from a sc(2) have "scored_entry b args (ida, a) \<in> set S"
    unfolding setS scored_set by force
  then obtain i where i: "i < length S" "S ! i = scored_entry b args (ida, a)"
    by (auto simp: in_set_conv_nth)
  have "i < j"
  proof (rule ccontr)
    assume "\<not> i < j"
    then have "j \<le> i" by simp
    with sorted i(1) have "(map (\<lambda>r. - r_score r) S) ! j \<le> (map (\<lambda>r. - r_score r) S) ! i"
      by (intro sorted_nth_mono) auto
    with i jS scb have "score_of b args ida a \<le> score_of b args idb eb"
      by (simp add: scored_entry_fields)
    with sc(1) show False by simp
  qed
  with jS i have "i < length results" "r_entity_id (results ! i) = ida"
    by (auto simp: results scored_entry_fields)
  from rank_of_exists [OF this] obtain i' where "rank_of ida results = Some i'" "i' \<le> i" by blast
  with \<open>i < j\<close> show ?thesis by auto
qed

theorem exact_outranks_prefix_witness:
  "distinct (map fst (b_entities ceiling_pool))
   \<and> (''switch.s1'', fan_switch) \<in> set (b_entities ceiling_pool)
   \<and> (''fan.ceiling'', fan_ceiling) \<in> set (b_entities ceiling_pool)
   \<and> exact_match fan_query ''switch.s1'' fan_switch
   \<and> prefix_only_match fan_query ''fan.ceiling'' fan_ceiling
   \<and> token_score fan_query ''fan.ceiling'' fan_ceiling < token_score fan_query ''switch.s1'' fan_switch + 400
   \<and> searchEntitiesFuzzy ceiling_pool fan_query = Inr ceiling_results
   \<and> rank_of ''fan.ceiling'' ceiling_results = Some 1
   \<and> rank_of ''switch.s1'' ceiling_results = Some 0"
proof -
  have h1: "distinct (map fst (b_entities ceiling_pool))" by code_simp
  have h2: "(''switch.s1'', fan_switch) \<in> set (b_entities ceiling_pool)"
    by (simp add: ceiling_pool_def)
  have h3: "(''fan.ceiling'', fan_ceiling) \<in> set (b_entities ceiling_pool)"
    by (simp add: ceiling_pool_def)
  have h4: "exact_match fan_query ''switch.s1'' fan_switch" by code_simp
  have h5: "prefix_only_match fan_query ''fan.ceiling'' fan_ceiling" by code_simp
  have h6: "token_score fan_query ''fan.ceiling'' fan_ceiling
      < token_score fan_query ''switch.s1'' fan_switch + 400" by code_simp
  have h7: "searchEntitiesFuzzy ceiling_pool fan_query = Inr ceiling_results" by code_simp
  have h8: "rank_of ''fan.ceiling'' ceiling_results = Some 1" by code_simp
  from exact_outranks_prefix [OF h1 h2 h3 h4 h5 h6 h7 h8]
  have "rank_of ''switch.s1'' ceiling_results = Some 0" by auto
  with h1 h2 h3 h4 h5 h6 h7 h8 show ?thesis by blast
qed

text \<open>
  Claim C3 as stated fails: in the pool where the prefix candidate repeats the query word, the
  exact match \<^verbatim>\<open>switch.s1\<close> scores 1850 and the prefix-only match \<^verbatim>\<open>fan.fan_fan\<close> scores 1890,
  so the prefix-only match is ranked first.
\<close>

theorem exact_below_prefix_counterexample:
  "exact_match fan_query ''switch.s1'' fan_switch
   \<and> prefix_only_match fan_query ''fan.fan_fan'' fan_fan_fan
   \<and> searchEntitiesFuzzy repeating_pool fan_query =
       Inr [\<lparr>r_entity_id = ''fan.fan_fan'', r_friendly_name = ''Fan Fan Fan Fan Fan Fan Fan'',
              r_domain = ''fan'', r_state = ''on'', r_score = 1890, r_relevance = ''high''\<rparr>,
            \<lparr>r_entity_id = ''switch.s1'', r_friendly_name = ''Fan'',
              r_domain = ''switch'', r_state = ''on'', r_score = 1850, r_relevance = ''high''\<rparr>]"
  by code_simp

section \<open>The cache\<close>

lemma set_cache_memory:
  "memoryCache (set_cache c now k d ttl_arg written) k =
     Some \<lparr>data = d, timestamp = now, ttl = (case ttl_arg of None \<Rightarrow> cacheTTL c | Some t \<Rightarrow> t)\<rparr>"
  by (simp add: set_cache_def Let_def)

lemma set_cache_disk:
  "diskCache (set_cache c now k d ttl_arg written) k =
     (if written
      then Some \<lparr>data = d, timestamp = now, ttl = (case ttl_arg of None \<Rightarrow> cacheTTL c | Some t \<Rightarrow> t)\<rparr>
      else diskCache c k)"
  by (simp add: set_cache_def Let_def)

lemma set_cache_written_agree: "tiers_agree (set_cache c now k d ttl_arg True) k"
  by (simp add: tiers_agree_def set_cache_memory set_cache_disk)

lemma get_cache_memory_fresh:
  "memoryCache c k = Some m \<Longrightarrow> fresh now1 m \<Longrightarrow> get_cache c now1 now2 k = (data m, c)"
  by (simp add: get_cache_def read_disk_def)

lemma get_cache_agree_stale:
  assumes "memoryCache c k = Some m" and "\<not> fresh now1 m" and "now1 \<le> now2" and "tiers_agree c k"
  shows "get_cache c now1 now2 k = (Null, c)"
proof -
  from assms(2,3) have "\<not> fresh now2 m" by (simp add: fresh_def)
  with assms show ?thesis
    by (auto simp: get_cache_def read_disk_def tiers_agree_def split: option.splits)
qed


lemma get_cache_cacheTTL: "cacheTTL (snd (get_cache c now1 now2 k)) = cacheTTL c"
  by (simp add: get_cache_def read_disk_def split: option.splits)


lemma get_cache_no_fresh_file:
  assumes "case diskCache c k of None \<Rightarrow> True | Some cached \<Rightarrow> \<not> fresh now2 cached"
  shows "snd (get_cache c now1 now2 k) = c"
  using assms by (auto simp: get_cache_def read_disk_def split: option.splits if_splits)

text \<open>
  Claim C5. A record is served exactly while it is fresh, and fresh means
  \<^verbatim>\<open>now - timestamp < ttl\<close>: after \<^verbatim>\<open>set(k, v, t)\<close> at time \<open>t0\<close>, a \<^verbatim>\<open>get(k)\<close> whose clock
  reads less than \<open>t0 + t\<close> returns \<open>v\<close>, and one whose clock reads \<open>t0 + t\<close> or more returns
  \<^verbatim>\<open>null\<close>, with no other write in between, the two tiers agreeing on the key, and the clock
  not running backwards during the \<^verbatim>\<open>get\<close>. An omitted \<open>t\<close> is the cache's default ttl.
\<close>

theorem cache_freshness:
  assumes "tiers_agree (set_cache c t0 k v ttl_arg written) k" and "now1 \<le> now2"
  shows "fst (get_cache (set_cache c t0 k v ttl_arg written) now1 now2 k) =
           (if now1 - t0 < (case ttl_arg of None \<Rightarrow> cacheTTL c | Some t \<Rightarrow> t) then v else Null)"
proof -
  let ?t = "case ttl_arg of None \<Rightarrow> cacheTTL c | Some t \<Rightarrow> t"
  let ?m = "\<lparr>data = v, timestamp = t0, ttl = ?t\<rparr>"
  let ?c = "set_cache c t0 k v ttl_arg written"
  have m: "memoryCache ?c k = Some ?m" by (rule set_cache_memory)
  show ?thesis
  proof (cases "now1 - t0 < ?t")
    case True
    then have "fresh now1 ?m" by (simp add: fresh_def)
    from get_cache_memory_fresh [OF m this] True show ?thesis by simp
  next
    case False
    then have "\<not> fresh now1 ?m" by (simp add: fresh_def)
    from get_cache_agree_stale [OF m this assms(2) assms(1)] False show ?thesis by simp
  qed
qed

theorem cache_freshness_witness:
  "tiers_agree (set_cache (new_CacheManager 60000 Map.empty) 0 ''entities'' (Value (7::nat)) (Some 1000) True) ''entities''
   \<and> fst (get_cache (set_cache (new_CacheManager 60000 Map.empty) 0 ''entities'' (Value (7::nat)) (Some 1000) True)
        500 501 ''entities'') = Value 7
   \<and> fst (get_cache (set_cache (new_CacheManager 60000 Map.empty) 0 ''entities'' (Value (7::nat)) (Some 1000) True)
        1000 1001 ''entities'') = Null
   \<and> fst (get_cache (set_cache (new_CacheManager 60000 Map.empty) 0 ''entities'' (Value (7::nat)) (Some 1000) True)
        1500 1501 ''entities'') = Null"
proof -
  let ?c = "set_cache (new_CacheManager 60000 Map.empty) 0 ''entities'' (Value (7::nat)) (Some 1000) True"
  have a: "tiers_agree ?c ''entities''" by (rule set_cache_written_agree)
  from cache_freshness [OF a, of 500 501] have "fst (get_cache ?c 500 501 ''entities'') = Value 7"
    by simp
  moreover from cache_freshness [OF a, of 1000 1001] have "fst (get_cache ?c 1000 1001 ''entities'') = Null"
    by simp
  moreover from cache_freshness [OF a, of 1500 1501] have "fst (get_cache ?c 1500 1501 ''entities'') = Null"
    by simp
  ultimately show ?thesis using a by blast
qed





text \<open>
  Claim C10. A stored \<^verbatim>\<open>null\<close> cannot be told from absence. When \<^verbatim>\<open>getOrFetch\<close> misses and
  the fetch function resolves to \<^verbatim>\<open>null\<close>, a record holding \<^verbatim>\<open>null\<close> is written for the key
  (in memory, and on disk when the write succeeds). While that record is fresh, \<^verbatim>\<open>get\<close>
  returns \<^verbatim>\<open>null\<close>, the miss sentinel, and \<^verbatim>\<open>getOrFetch\<close> runs its fetch function again: the
  caller receives the outcome of that run and the world is the one the run leaves. Once the
  record is stale \<^verbatim>\<open>get\<close> returns \<^verbatim>\<open>null\<close> as well, the two tiers agreeing on the key (as they
  do when the write to disk succeeded).
\<close>

theorem null_is_absent:
  assumes miss: "fst (get_cache c now1 now2 k) = Null" and res: "fetchFn w = (Inr Null, w1)"
    and c': "c' = fst (snd (getOrFetch c now1 now2 now3 k fetchFn ttl_arg written w))"
    and r: "r = \<lparr>data = Null, timestamp = now3,
                  ttl = (case ttl_arg of None \<Rightarrow> cacheTTL c | Some x \<Rightarrow> x)\<rparr>"
  shows "memoryCache c' k = Some r
       \<and> (written \<longrightarrow> diskCache c' k = Some r)
       \<and> (fresh t1 r \<longrightarrow>
            fst (get_cache c' t1 t2 k) = Null
            \<and> fst (getOrFetch c' t1 t2 t3 k f ttl_arg' written' w2) = fst (f w2)
            \<and> snd (snd (getOrFetch c' t1 t2 t3 k f ttl_arg' written' w2)) = snd (f w2))
       \<and> (tiers_agree c' k \<and> t1 \<le> t2 \<longrightarrow> fst (get_cache c' t1 t2 k) = Null)"
proof -
  obtain x c1 where g: "get_cache c now1 now2 k = (x, c1)" by (cases "get_cache c now1 now2 k")
  with miss have x: "x = Null" by simp
  from g get_cache_cacheTTL [of c now1 now2 k] have ttl: "cacheTTL c1 = cacheTTL c" by simp
  from g x res c' have c'_eq: "c' = set_cache c1 now3 k Null ttl_arg written"
    by (simp add: getOrFetch_def)
  have mem: "memoryCache c' k = Some r"
    unfolding c'_eq r by (simp add: set_cache_memory ttl split: option.splits)
  have disk: "written \<longrightarrow> diskCache c' k = Some r"
    unfolding c'_eq r by (simp add: set_cache_disk ttl split: option.splits)
  have dr: "data r = Null" by (simp add: r)
  have fresh_case: "fst (get_cache c' t1 t2 k) = Null
      \<and> fst (getOrFetch c' t1 t2 t3 k f ttl_arg' written' w2) = fst (f w2)
      \<and> snd (snd (getOrFetch c' t1 t2 t3 k f ttl_arg' written' w2)) = snd (f w2)"
    if "fresh t1 r"
  proof -
    from get_cache_memory_fresh [OF mem that] dr have gg: "get_cache c' t1 t2 k = (Null, c')" by simp
    obtain o' w3 where fw: "f w2 = (o', w3)" by (cases "f w2")
    with gg show ?thesis by (cases o') (simp_all add: getOrFetch_def)
  qed
  have agree_case: "fst (get_cache c' t1 t2 k) = Null" if "tiers_agree c' k" "t1 \<le> t2"
  proof (cases "fresh t1 r")
    case True
    from get_cache_memory_fresh [OF mem True] dr show ?thesis by simp
  next
    case False
    from get_cache_agree_stale [OF mem False that(2) that(1)] show ?thesis by simp
  qed
  from mem disk fresh_case agree_case show ?thesis by blast
qed

theorem null_is_absent_witness:
  "fst (get_cache (new_CacheManager 60000 Map.empty :: nat CacheManager) 0 1 ''areas'') = Null
   \<and> fetch_null 0 = (Inr Null, 1)
   \<and> memoryCache null_cached ''areas'' = Some \<lparr>data = Null, timestamp = 2, ttl = 1000\<rparr>
   \<and> diskCache null_cached ''areas'' = Some \<lparr>data = Null, timestamp = 2, ttl = 1000\<rparr>
   \<and> fresh 500 \<lparr>data = (Null :: nat nullable), timestamp = 2, ttl = 1000\<rparr>
   \<and> tiers_agree null_cached ''areas''
   \<and> fst (get_cache null_cached 500 501 ''areas'') = Null
   \<and> fst (getOrFetch null_cached 500 501 502 ''areas'' fetch_seven None True 1) = Inr (Value 7)
   \<and> snd (snd (getOrFetch null_cached 500 501 502 ''areas'' fetch_seven None True 1)) = 2
   \<and> fst (get_cache null_cached 5000 5001 ''areas'') = Null"
proof -
  let ?c = "new_CacheManager 60000 Map.empty :: nat CacheManager"
  let ?r = "\<lparr>data = (Null :: nat nullable), timestamp = 2, ttl = 1000\<rparr>"
  have m: "fst (get_cache ?c 0 1 ''areas'') = Null"
    by (simp add: get_cache_def read_disk_def new_CacheManager_def)
  have f: "fetch_null 0 = (Inr Null, 1)" by (simp add: fetch_null_def)
  have r: "?r = \<lparr>data = Null, timestamp = 2,
                 ttl = (case Some 1000 of None \<Rightarrow> cacheTTL ?c | Some x \<Rightarrow> x)\<rparr>" by simp
  have fr: "fresh 500 ?r" by (simp add: fresh_def)
  note n1 = null_is_absent [OF m f null_cached_def r, of 500 501 502 fetch_seven None True 1]
  note n2 = null_is_absent [OF m f null_cached_def r, of 5000 5001 502 fetch_seven None True 1]
  from n1 fr have stored: "memoryCache null_cached ''areas'' = Some ?r"
    "diskCache null_cached ''areas'' = Some ?r"
    and again: "fst (get_cache null_cached 500 501 ''areas'') = Null"
    "fst (getOrFetch null_cached 500 501 502 ''areas'' fetch_seven None True 1) = Inr (Value 7)"
    "snd (snd (getOrFetch null_cached 500 501 502 ''areas'' fetch_seven None True 1)) = 2"
    by (simp_all add: fetch_seven_def)
  from stored have agree: "tiers_agree null_cached ''areas''" by (simp add: tiers_agree_def)
  with n2 have "fst (get_cache null_cached 5000 5001 ''areas'') = Null" by simp
  with stored again agree show ?thesis using m f fr by blast
qed


end
